(* ===== verification/Tedlt_Prelude.thy ===== *)
theory Tedlt_Prelude
  imports Main "HOL-Library.Sublist"
begin

text \<open>
  Shared vocabulary of the development: the lemma collections the component
  theories fill and use, and the generic functions on lists and strings that
  the configuration's properties are stated with. Nothing here models a line
  of the repository; every function is executable, so that a statement about
  the configured values is decided by rewriting.

  \<^item> \<open>split_on\<close> and \<open>join_with\<close> cut a string at a separator and put it
    together again (the reading of a slug as a path of segments);
  \<^item> the character classes and \<open>to_lower\<close> are those of kebab-case names.
\<close>

section \<open>Lemma collections\<close>

named_theorems cfg_defs "the defining equations of the configured values"
named_theorems wf_defs "the defining equations of the well-formedness predicates"

section \<open>Types of the model\<close>

type_synonym segment = string
type_synonym url = string

section \<open>Cutting a list at a separator\<close>

fun split_on :: "'a \<Rightarrow> 'a list \<Rightarrow> 'a list list" where
  "split_on c [] = [[]]"
| "split_on c (x # xs) =
     (if x = c then [] # split_on c xs
      else (case split_on c xs of
              [] \<Rightarrow> [[x]]
            | s # ss \<Rightarrow> (x # s) # ss))"

fun join_with :: "'a \<Rightarrow> 'a list list \<Rightarrow> 'a list" where
  "join_with c [] = []"
| "join_with c [s] = s"
| "join_with c (s # t # ss) = s @ c # join_with c (t # ss)"

section \<open>Character classes\<close>

definition lower_alpha :: string where
  "lower_alpha = ''abcdefghijklmnopqrstuvwxyz''"

definition upper_alpha :: string where
  "upper_alpha = ''ABCDEFGHIJKLMNOPQRSTUVWXYZ''"

definition digit_chars :: string where
  "digit_chars = ''0123456789''"

definition to_lower :: "char \<Rightarrow> char" where
  "to_lower c =
     (case map_of (zip upper_alpha lower_alpha) c of
        None \<Rightarrow> c
      | Some d \<Rightarrow> d)"

definition kebab_char :: "char \<Rightarrow> bool" where
  "kebab_char c \<longleftrightarrow> c \<in> set lower_alpha \<or> c \<in> set digit_chars \<or> c = CHR ''-''"

lemmas char_class_defs = lower_alpha_def upper_alpha_def digit_chars_def

section \<open>Lemmas on \<open>split_on\<close> and \<open>join_with\<close>\<close>

lemma split_on_not_Nil [simp]: "split_on c xs \<noteq> []"
  by (induction xs) (auto split: list.splits)

lemma split_on_Cons_other:
  "x \<noteq> c \<Longrightarrow> split_on c (x # xs) = (x # hd (split_on c xs)) # tl (split_on c xs)"
  by (cases "split_on c xs") simp_all

lemma join_with_Cons:
  "ss \<noteq> [] \<Longrightarrow> join_with c (s # ss) = s @ c # join_with c ss"
  by (cases ss) simp_all

lemma join_with_Cons_head:
  "join_with c ((x # s) # ss) = x # join_with c (s # ss)"
  by (cases ss) simp_all

lemma join_with_split_on [simp]: "join_with c (split_on c xs) = xs"
proof (induction xs)
  case Nil
  show ?case by simp
next
  case (Cons x xs)
  show ?case
  proof (cases "x = c")
    case True
    with Cons show ?thesis by (simp add: join_with_Cons)
  next
    case False
    obtain s ss where eq: "split_on c xs = s # ss"
      by (cases "split_on c xs") simp_all
    with Cons have "join_with c (s # ss) = xs" by simp
    with False eq show ?thesis by (simp add: join_with_Cons_head)
  qed
qed

lemma split_on_segments_free:
  "s \<in> set (split_on c xs) \<Longrightarrow> c \<notin> set s"
  by (induction xs arbitrary: s) (auto split: if_splits list.splits)

lemma split_on_free [simp]: "c \<notin> set xs \<Longrightarrow> split_on c xs = [xs]"
  by (induction xs) auto

lemma split_on_append_sep:
  "c \<notin> set xs \<Longrightarrow> split_on c (xs @ c # ys) = xs # split_on c ys"
  by (induction xs) auto

lemma split_on_append_Cons:
  "split_on c (xs @ c # ys) = split_on c xs @ split_on c ys"
proof (induction xs)
  case Nil
  show ?case by simp
next
  case (Cons x xs)
  then show ?case by (cases "split_on c xs") auto
qed

lemma split_on_snoc_sep: "split_on c (xs @ [c]) = split_on c xs @ [[]]"
  by (simp add: split_on_append_Cons)

lemma split_on_join_with:
  "ss \<noteq> [] \<Longrightarrow> (\<And>s. s \<in> set ss \<Longrightarrow> c \<notin> set s) \<Longrightarrow> split_on c (join_with c ss) = ss"
proof (induction c ss rule: join_with.induct)
  case (1 c)
  then show ?case by simp
next
  case (2 c s)
  then show ?case by simp
next
  case (3 c s t ss)
  have "c \<notin> set s" using "3.prems"(2) by simp
  moreover have "split_on c (join_with c (t # ss)) = t # ss"
    using "3.IH" "3.prems"(2) by simp
  ultimately show ?case by (simp add: split_on_append_sep)
qed

lemma length_split_on: "length (split_on c xs) = Suc (count_list xs c)"
  by (induction xs) (auto split: list.splits)

lemma concat_split_on: "concat (split_on c xs) = filter (\<lambda>x. x \<noteq> c) xs"
  by (induction xs) (auto split: list.splits)

section \<open>Lemmas on the character classes\<close>

lemma length_upper_lower: "length upper_alpha = length lower_alpha"
  by (simp add: char_class_defs)

lemma lower_upper_disjoint: "set lower_alpha \<inter> set upper_alpha = {}"
  by (simp add: char_class_defs)

lemma digit_upper_disjoint: "set digit_chars \<inter> set upper_alpha = {}"
  by (simp add: char_class_defs)

lemma kebab_not_upper: "kebab_char c \<Longrightarrow> c \<notin> set upper_alpha"
  using lower_upper_disjoint digit_upper_disjoint
  by (auto simp: kebab_char_def) (simp add: upper_alpha_def)

lemma to_lower_other: "c \<notin> set upper_alpha \<Longrightarrow> to_lower c = c"
proof -
  assume "c \<notin> set upper_alpha"
  with length_upper_lower have "map_of (zip upper_alpha lower_alpha) c = None"
    by (simp add: map_of_zip_is_None)
  then show ?thesis by (simp add: to_lower_def)
qed

lemma to_lower_upper: "c \<in> set upper_alpha \<Longrightarrow> to_lower c \<in> set lower_alpha"
proof -
  assume "c \<in> set upper_alpha"
  with length_upper_lower obtain d where d: "map_of (zip upper_alpha lower_alpha) c = Some d"
    by (metis map_of_zip_is_None not_Some_eq)
  then have "d \<in> set lower_alpha"
    by (meson in_set_zipE map_of_SomeD)
  with d show ?thesis by (simp add: to_lower_def)
qed

lemma to_lower_kebab [simp]: "kebab_char c \<Longrightarrow> to_lower c = c"
  by (simp add: kebab_not_upper to_lower_other)

lemma to_lower_idem [simp]: "to_lower (to_lower c) = to_lower c"
proof (cases "c \<in> set upper_alpha")
  case True
  then have "kebab_char (to_lower c)"
    by (simp add: kebab_char_def to_lower_upper)
  then show ?thesis by simp
next
  case False
  then show ?thesis by (simp add: to_lower_other)
qed

end
