(* ===== verification/Site_Config.thy ===== *)
theory Site_Config
  imports Tedlt_Prelude
begin

text \<open>
  The one source file of the repository, \<^verbatim>\<open>src/docs/astro.config.mjs\<close>, as data.
  The file is a single expression: the default export is the object handed to
  \<^verbatim>\<open>defineConfig\<close>, whose \<^verbatim>\<open>integrations\<close> hold one call of \<^verbatim>\<open>starlight\<close> on
  an object of options. Object literals become records (one field per key,
  under the key's name), the two shapes of sidebar entry become a datatype,
  arrays become lists and string literals become strings, character for
  character. The call \<^verbatim>\<open>starlight({...})\<close> is kept as the constructor
  \<open>Starlight\<close> applied to its argument; \<^verbatim>\<open>defineConfig\<close> only types its
  argument and is not represented.

  The field \<^verbatim>\<open>label\<close> occurs in two object shapes; the one of a social link is
  named \<open>social_label\<close> here, since the sidebar entries own the selector
  \<open>label\<close>.
\<close>

section \<open>The shape of the configuration\<close>

record social_link =
  icon :: string
  social_label :: string
  href :: url

datatype sidebar_entry =
    Link (label: string) (slug: string)
  | Group (label: string) (items: "sidebar_entry list")

record starlight_config =
  title :: string
  description :: string
  social :: "social_link list"
  sidebar :: "sidebar_entry list"
  customCss :: "string list"

datatype integration = Starlight (options: starlight_config)

record astro_config =
  site :: url
  base :: string
  integrations :: "integration list"

section \<open>The configured values\<close>

definition github_link :: social_link where [cfg_defs]:
  "github_link =
     \<lparr>icon = ''github'',
      social_label = ''GitHub'',
      href = ''https://github.com/brequet/tedlt''\<rparr>"

definition getting_started :: sidebar_entry where [cfg_defs]:
  "getting_started =
     Group ''Getting Started''
       [Link ''Introduction'' ''index'',
        Link ''Installation'' ''getting-started/installation'',
        Link ''Quick Start'' ''getting-started/quick-start'']"

definition usage :: sidebar_entry where [cfg_defs]:
  "usage =
     Group ''Usage''
       [Link ''Creating Tickets'' ''usage/creating-tickets'',
        Link ''Using Profiles'' ''usage/profiles'',
        Link ''Discovering Jira Info'' ''usage/info-commands'']"

definition configuration :: sidebar_entry where [cfg_defs]:
  "configuration =
     Group ''Configuration''
       [Link ''Overview'' ''configuration/overview'',
        Link ''Environment Variables'' ''configuration/environment'',
        Link ''Configuration File'' ''configuration/config-file'',
        Link ''Profiles'' ''configuration/profiles'',
        Link ''Profile Inheritance'' ''configuration/inheritance'',
        Link ''Property Templates'' ''configuration/properties'']"

definition reference :: sidebar_entry where [cfg_defs]:
  "reference =
     Group ''Reference''
       [Link ''Commands'' ''reference/commands'',
        Link ''Configuration Schema'' ''reference/config-schema'']"

definition docs_sidebar :: "sidebar_entry list" where
  "docs_sidebar = [getting_started, usage, configuration, reference]"

definition starlight_options :: starlight_config where
  "starlight_options =
     \<lparr>title = ''tedlt'',
      description =
        ''A CLI tool to create Jira tickets from the command line with just a title'',
      social = [github_link],
      sidebar = docs_sidebar,
      customCss = [''./src/styles/custom.css'']\<rparr>"

definition tedlt_config :: astro_config where
  "tedlt_config =
     \<lparr>site = ''https://brequet.github.io'',
      base = ''/tedlt'',
      integrations = [Starlight starlight_options]\<rparr>"

section \<open>Reading the integration back\<close>

text \<open>
  The configuration holds its options inside the list of integrations;
  \<open>starlight_of\<close> reads them back when the list is a single call of
  \<^verbatim>\<open>starlight\<close>, as it is in the file.
\<close>

definition starlight_of :: "astro_config \<Rightarrow> starlight_config option" where
  "starlight_of cfg =
     (case integrations cfg of
        [Starlight opts] \<Rightarrow> Some opts
      | _ \<Rightarrow> None)"

lemmas config_unfold = tedlt_config_def starlight_options_def
lemmas docs_sidebar_unfold = docs_sidebar_def cfg_defs

lemma starlight_of_single [simp]:
  "integrations cfg = [Starlight opts] \<Longrightarrow> starlight_of cfg = Some opts"
  by (simp add: starlight_of_def)

lemma starlight_of_SomeD:
  "starlight_of cfg = Some opts \<Longrightarrow> integrations cfg = [Starlight opts]"
  by (auto simp: starlight_of_def split: list.splits integration.splits)

lemma starlight_of_tedlt_config [simp]:
  "starlight_of tedlt_config = Some starlight_options"
  by (simp add: tedlt_config_def)

lemma sidebar_starlight_options [simp]: "sidebar starlight_options = docs_sidebar"
  by (simp add: starlight_options_def)

end
