(* ===== verification/Slugs.thy ===== *)
theory Slugs
  imports Tedlt_Prelude
begin

text \<open>
  Slugs: the strings by which the sidebar of \<^verbatim>\<open>src/docs/astro.config.mjs\<close> names
  its pages (\<^verbatim>\<open>slug: "getting-started/installation"\<close>). A slug is read as a path
  of segments separated by \<open>/\<close>; it is well formed when every segment is a
  non-empty kebab-case name (lower-case letters, digits and hyphens). The
  functions here are the vocabulary in which the configured slugs are judged;
  they translate no line of the source.

  \<^item> \<open>segments\<close>, \<open>of_segments\<close>: a slug as a path and back (a round trip in both
    directions);
  \<^item> \<open>wf_slug\<close>: every segment is a kebab-case name;
  \<^item> \<open>directory\<close>: the path without its last segment;
  \<^item> \<open>slugify\<close>: a label as a kebab-case name (lower case, spaces as hyphens).
\<close>

section \<open>Definitions\<close>

definition segments :: "string \<Rightarrow> segment list" where
  "segments s = split_on CHR ''/'' s"

definition of_segments :: "segment list \<Rightarrow> string" where
  "of_segments ss = join_with CHR ''/'' ss"

definition wf_segment :: "segment \<Rightarrow> bool" where [wf_defs]:
  "wf_segment seg \<longleftrightarrow> seg \<noteq> [] \<and> list_all kebab_char seg"

definition wf_slug :: "string \<Rightarrow> bool" where [wf_defs]:
  "wf_slug s \<longleftrightarrow> list_all wf_segment (segments s)"

definition directory :: "string \<Rightarrow> segment list" where
  "directory s = butlast (segments s)"

definition slug_char :: "char \<Rightarrow> char" where
  "slug_char c = (if c = CHR '' '' then CHR ''-'' else to_lower c)"

definition slugify :: "string \<Rightarrow> string" where
  "slugify l = map slug_char l"

section \<open>Segments\<close>

lemma kebab_char_not_slash [simp]: "\<not> kebab_char CHR ''/''"
  by (simp add: kebab_char_def char_class_defs)

lemma kebab_char_not_space [simp]: "\<not> kebab_char CHR '' ''"
  by (simp add: kebab_char_def char_class_defs)

lemma kebab_char_not_dot [simp]: "\<not> kebab_char CHR ''.''"
  by (simp add: kebab_char_def char_class_defs)

lemma wf_segment_no_dot: "wf_segment seg \<Longrightarrow> CHR ''.'' \<notin> set seg"
  by (auto simp: wf_segment_def list_all_iff)

lemma wf_segment_no_slash: "wf_segment seg \<Longrightarrow> CHR ''/'' \<notin> set seg"
  by (auto simp: wf_segment_def list_all_iff)

lemma segments_not_Nil [simp]: "segments s \<noteq> []"
  by (simp add: segments_def)

lemma of_segments_segments [simp]: "of_segments (segments s) = s"
  by (simp add: of_segments_def segments_def)

lemma segments_of_segments:
  assumes "ss \<noteq> []" and "list_all wf_segment ss"
  shows "segments (of_segments ss) = ss"
  unfolding segments_def of_segments_def
  using assms by (intro split_on_join_with) (auto simp: list_all_iff wf_segment_no_slash)

lemma segments_single: "CHR ''/'' \<notin> set s \<Longrightarrow> segments s = [s]"
  by (simp add: segments_def)

lemma segments_Cons_dir:
  "CHR ''/'' \<notin> set d \<Longrightarrow> segments (d @ CHR ''/'' # s) = d # segments s"
  by (simp add: segments_def split_on_append_sep)

section \<open>Well-formed slugs\<close>

lemma wf_slug_not_Nil: "wf_slug s \<Longrightarrow> s \<noteq> []"
  by (auto simp: wf_slug_def segments_def wf_segment_def)

lemma wf_slug_segments: "wf_slug s \<Longrightarrow> seg \<in> set (segments s) \<Longrightarrow> wf_segment seg"
  by (simp add: wf_slug_def list_all_iff)

lemma set_join_with: "set (join_with c ss) \<subseteq> insert c (\<Union> (set ` set ss))"
  by (induction c ss rule: join_with.induct) auto

lemma wf_slug_chars:
  assumes "wf_slug s" and "c \<in> set s"
  shows "kebab_char c \<or> c = CHR ''/''"
proof -
  have "set s \<subseteq> insert CHR ''/'' (\<Union> (set ` set (segments s)))"
    using set_join_with [of "CHR ''/''" "segments s"] by (simp add: segments_def)
  with assms(2) have "c = CHR ''/'' \<or> (\<exists>seg \<in> set (segments s). c \<in> set seg)"
    by auto
  with assms(1) show ?thesis
    by (auto simp: wf_segment_def list_all_iff dest: wf_slug_segments)
qed

lemma wf_slug_of_segments:
  "ss \<noteq> [] \<Longrightarrow> list_all wf_segment ss \<Longrightarrow> wf_slug (of_segments ss)"
  by (simp add: wf_slug_def segments_of_segments)

lemma segments_append_slash:
  "segments (a @ CHR ''/'' # b) = segments a @ segments b"
  by (simp add: segments_def split_on_append_Cons)

lemma wf_slug_no_leading_slash: "wf_slug s \<Longrightarrow> hd s \<noteq> CHR ''/''"
proof
  assume wf: "wf_slug s" and "hd s = CHR ''/''"
  with wf_slug_not_Nil [OF wf] obtain r where "s = CHR ''/'' # r"
    by (cases s) auto
  then have "[] \<in> set (segments s)" by (simp add: segments_def)
  with wf show False by (auto dest: wf_slug_segments simp: wf_segment_def)
qed

lemma wf_slug_no_trailing_slash: "wf_slug s \<Longrightarrow> last s \<noteq> CHR ''/''"
proof
  assume wf: "wf_slug s" and "last s = CHR ''/''"
  with wf_slug_not_Nil [OF wf] have "s = butlast s @ [CHR ''/'']"
    using append_butlast_last_id [of s] by simp
  then have "segments s = segments (butlast s) @ [[]]"
    unfolding segments_def using split_on_snoc_sep [of "CHR ''/''" "butlast s"] by simp
  then have "[] \<in> set (segments s)" by simp
  with wf show False by (auto dest: wf_slug_segments simp: wf_segment_def)
qed

section \<open>Labels as names\<close>

lemma to_lower_not_space: "c \<noteq> CHR '' '' \<Longrightarrow> to_lower c \<noteq> CHR '' ''"
proof (cases "c \<in> set upper_alpha")
  case True
  then have "kebab_char (to_lower c)"
    by (simp add: kebab_char_def to_lower_upper)
  then show ?thesis by auto
next
  case False
  assume "c \<noteq> CHR '' ''"
  with False show ?thesis by (simp add: to_lower_other)
qed

lemma slug_char_not_space [simp]: "slug_char c \<noteq> CHR '' ''"
  by (simp add: slug_char_def to_lower_not_space)

lemma slug_char_kebab [simp]: "kebab_char c \<Longrightarrow> slug_char c = c"
  by (auto simp: slug_char_def)

lemma slug_char_idem [simp]: "slug_char (slug_char c) = slug_char c"
proof (cases "c = CHR '' ''")
  case True
  then show ?thesis by (simp add: slug_char_def kebab_char_def)
next
  case False
  then show ?thesis by (simp add: slug_char_def to_lower_not_space)
qed

lemma slugify_kebab: "list_all kebab_char s \<Longrightarrow> slugify s = s"
  by (induction s) (simp_all add: slugify_def)

lemma slugify_idem [simp]: "slugify (slugify l) = slugify l"
  by (simp add: slugify_def)

lemma length_slugify [simp]: "length (slugify l) = length l"
  by (simp add: slugify_def)

lemma slugify_no_space: "CHR '' '' \<notin> set (slugify l)"
  by (induction l) (simp_all add: slugify_def slug_char_not_space [symmetric])

lemma slugify_append [simp]: "slugify (a @ b) = slugify a @ slugify b"
  by (simp add: slugify_def)

end
