(* ===== verification/Sidebar.thy ===== *)
theory Sidebar
  imports Site_Config Slugs
begin

text \<open>
  The sidebar of \<^verbatim>\<open>src/docs/astro.config.mjs\<close> (lines 21 to 59): a tree of groups
  whose leaves are the pages of the site, in reading order. The tree itself,
  \<open>docs_sidebar\<close>, is defined in \<open>Site_Config\<close>; this theory holds the
  functions over such trees, the predicates by which a sidebar is judged, their
  general lemmas, and then the properties of the configured tree. The
  predicates translate no line of the source: they say what an editor of the
  file has to keep true.

  \<^item> \<open>links\<close>, \<open>sidebar_links\<close>, \<open>slugs\<close>, \<open>page_labels\<close>: the pages of a tree in
    reading order, as pairs of label and slug;
  \<^item> \<open>wf_entry\<close>, \<open>wf_sidebar\<close>: labels are not empty, slugs are well formed,
    groups are not empty, siblings have different labels, and no slug occurs
    twice;
  \<^item> \<open>housed\<close>: the pages of a group lie in the directory named after the
    group, or at the top level;
  \<^item> \<open>filed\<close>: every page lies in the directory of the groups around it, the
    landing page alone excepted;
  \<^item> \<open>slug_of_label\<close>: the page a label names.
\<close>

section \<open>Functions over sidebars\<close>

fun links :: "sidebar_entry \<Rightarrow> (string \<times> string) list" where
  "links (Link l s) = [(l, s)]"
| "links (Group l es) = concat (map links es)"

definition sidebar_links :: "sidebar_entry list \<Rightarrow> (string \<times> string) list" where
  "sidebar_links sb = concat (map links sb)"

definition slugs :: "sidebar_entry list \<Rightarrow> string list" where
  "slugs sb = map snd (sidebar_links sb)"

definition page_labels :: "sidebar_entry list \<Rightarrow> string list" where
  "page_labels sb = map fst (sidebar_links sb)"

fun wf_entry :: "sidebar_entry \<Rightarrow> bool" where
  "wf_entry (Link l s) \<longleftrightarrow> l \<noteq> [] \<and> wf_slug s"
| "wf_entry (Group l es) \<longleftrightarrow>
     l \<noteq> [] \<and> es \<noteq> [] \<and> list_all wf_entry es \<and> distinct (map label es)"

definition wf_sidebar :: "sidebar_entry list \<Rightarrow> bool" where
  "wf_sidebar sb \<longleftrightarrow>
     list_all wf_entry sb \<and> distinct (map label sb) \<and> distinct (slugs sb)"

definition in_directory :: "string \<Rightarrow> sidebar_entry \<Rightarrow> bool" where
  "in_directory d e =
     (case e of
        Link l s \<Rightarrow> directory s = [] \<or> directory s = [d]
      | Group l es \<Rightarrow> True)"

fun housed :: "sidebar_entry \<Rightarrow> bool" where
  "housed (Link l s) \<longleftrightarrow> True"
| "housed (Group l es) \<longleftrightarrow>
     list_all housed es \<and> list_all (in_directory (slugify l)) es"

definition slug_of_label :: "sidebar_entry list \<Rightarrow> string \<Rightarrow> string option" where
  "slug_of_label sb = map_of (sidebar_links sb)"

definition landing :: string where
  "landing = ''index''"

fun filed :: "segment list \<Rightarrow> sidebar_entry \<Rightarrow> bool" where
  "filed d (Link l s) \<longleftrightarrow> s = landing \<or> directory s = d"
| "filed d (Group l es) \<longleftrightarrow> list_all (filed (d @ [slugify l])) es"

section \<open>General lemmas\<close>

lemma sidebar_links_Nil [simp]: "sidebar_links [] = []"
  and sidebar_links_Cons [simp]: "sidebar_links (e # sb) = links e @ sidebar_links sb"
  by (simp_all add: sidebar_links_def)

lemma slugs_Nil [simp]: "slugs [] = []"
  and slugs_Cons [simp]: "slugs (e # sb) = map snd (links e) @ slugs sb"
  by (simp_all add: slugs_def)

lemma links_Group: "links (Group l es) = sidebar_links es"
  by (simp add: sidebar_links_def)

lemma slugs_append [simp]: "slugs (a @ b) = slugs a @ slugs b"
  by (simp add: slugs_def sidebar_links_def)

lemma length_slugs: "length (slugs sb) = length (sidebar_links sb)"
  and length_page_labels: "length (page_labels sb) = length (sidebar_links sb)"
  by (simp_all add: slugs_def page_labels_def)

lemma wf_entry_links:
  "wf_entry e \<Longrightarrow> (l, s) \<in> set (links e) \<Longrightarrow> l \<noteq> [] \<and> wf_slug s"
  by (induction e) (auto simp: list_all_iff)

lemma wf_sidebar_links:
  assumes "wf_sidebar sb" and "(l, s) \<in> set (sidebar_links sb)"
  shows "l \<noteq> [] \<and> wf_slug s"
proof -
  from assms(2) obtain e where "e \<in> set sb" and "(l, s) \<in> set (links e)"
    by (auto simp: sidebar_links_def)
  moreover from assms(1) \<open>e \<in> set sb\<close> have "wf_entry e"
    by (simp add: wf_sidebar_def list_all_iff)
  ultimately show ?thesis by (blast dest: wf_entry_links)
qed

lemma wf_sidebar_slug: "wf_sidebar sb \<Longrightarrow> s \<in> set (slugs sb) \<Longrightarrow> wf_slug s"
  by (auto simp: slugs_def dest: wf_sidebar_links)

lemma wf_sidebar_distinct: "wf_sidebar sb \<Longrightarrow> distinct (slugs sb)"
  by (simp add: wf_sidebar_def)

lemma slug_of_label_Some:
  assumes "distinct (page_labels sb)" and "(l, s) \<in> set (sidebar_links sb)"
  shows "slug_of_label sb l = Some s"
  using assms unfolding slug_of_label_def page_labels_def by (rule map_of_is_SomeI)

lemma slug_of_label_SomeD:
  "slug_of_label sb l = Some s \<Longrightarrow> (l, s) \<in> set (sidebar_links sb)"
  unfolding slug_of_label_def by (rule map_of_SomeD)

lemma slug_of_label_labels:
  "distinct (page_labels sb) \<Longrightarrow> map (slug_of_label sb) (page_labels sb) = map Some (slugs sb)"
proof -
  assume d: "distinct (page_labels sb)"
  have "slug_of_label sb (fst p) = Some (snd p)" if "p \<in> set (sidebar_links sb)" for p
    using that slug_of_label_Some [OF d, of "fst p" "snd p"] by simp
  then show ?thesis by (simp add: slugs_def page_labels_def)
qed

lemma housed_links:
  assumes "housed (Group l es)" and "Link l' s \<in> set es"
  shows "directory s = [] \<or> directory s = [slugify l]"
  using assms by (auto simp: list_all_iff in_directory_def)

lemma filed_links:
  "filed d e \<Longrightarrow> (l, s) \<in> set (links e) \<Longrightarrow> s = landing \<or> prefix d (directory s)"
proof (induction e arbitrary: d)
  case (Link l' s')
  then show ?case by auto
next
  case (Group l' es)
  from Group.prems(2) obtain e where e: "e \<in> set es" "(l, s) \<in> set (links e)" by auto
  with Group.prems(1) have "filed (d @ [slugify l']) e" by (simp add: list_all_iff)
  from Group.IH [OF e(1) this e(2)] show ?case by (auto dest: append_prefixD)
qed

lemma filed_housed:
  assumes "filed [] (Group l es)" and "list_all (\<lambda>e. items e = []) es"
  shows "housed (Group l es)"
proof -
  have "housed e \<and> in_directory (slugify l) e" if "e \<in> set es" for e
  proof (cases e)
    case (Link l' s)
    with assms(1) that have "s = landing \<or> directory s = [slugify l]"
      by (auto simp: list_all_iff)
    with Link show ?thesis
      by (auto simp: in_directory_def landing_def directory_def segments_def)
  next
    case (Group l' es')
    with assms(2) that show ?thesis by (auto simp: list_all_iff in_directory_def)
  qed
  then show ?thesis by (simp add: list_all_iff)
qed

section \<open>The configured sidebar\<close>

lemmas sidebar_eval = slugs_def page_labels_def sidebar_links_def docs_sidebar_unfold
lemmas slug_eval = wf_defs segments_def kebab_char_def char_class_defs

section \<open>Properties of the configured sidebar\<close>

text \<open>
  C2. The sidebar of the configuration is well formed: every label is
  non-empty, every slug is a path of non-empty kebab-case segments, every
  group has entries, the entries of a group and the groups themselves have
  pairwise different labels, and no slug is listed twice.
\<close>

theorem docs_sidebar_well_formed: "wf_sidebar docs_sidebar"
  by (simp add: wf_sidebar_def sidebar_eval slug_eval)

text \<open>
  C6. Every page of a group lies in the directory whose name is the group's
  label in kebab case (\<open>Getting Started\<close> holds \<open>getting-started/...\<close>), or at
  the top level of the site, as the landing page \<open>index\<close> does.
\<close>

theorem docs_sidebar_housed: "list_all housed docs_sidebar"
  by (simp add: docs_sidebar_unfold in_directory_def directory_def segments_def
      slugify_def slug_char_def to_lower_def char_class_defs)

text \<open>
  C7. No two pages of the sidebar carry the same label, in whatever groups
  they are, so a label names one page: looking the labels up in reading order
  returns the slugs in reading order.
\<close>

theorem docs_slug_of_label:
  "distinct (page_labels docs_sidebar) \<and>
   map (slug_of_label docs_sidebar) (page_labels docs_sidebar) = map Some (slugs docs_sidebar)"
proof -
  have "distinct (page_labels docs_sidebar)" by (simp add: sidebar_eval)
  then show ?thesis by (simp add: slug_of_label_labels)
qed

text \<open>
  C9. Every page is filed in the directory of its group, the landing page
  \<open>index\<close> alone excepted, and the sidebar lists the landing page. A slug that
  lost its directory (\<open>installation\<close> for \<open>getting-started/installation\<close>) passes
  as a top-level page for \<open>housed\<close>; it does not pass here.
\<close>

theorem docs_sidebar_filed:
  "list_all (filed []) docs_sidebar \<and> landing \<in> set (slugs docs_sidebar)"
  by (simp add: docs_sidebar_unfold landing_def directory_def segments_def
      slugify_def slug_char_def to_lower_def char_class_defs)

end
