(* ===== verification/Site_Urls.thy ===== *)
theory Site_Urls
  imports Sidebar
begin

text \<open>
  Addresses. The configuration of \<^verbatim>\<open>src/docs/astro.config.mjs\<close> fixes where the
  site is served (\<^verbatim>\<open>site\<close>, line 7, and \<^verbatim>\<open>base\<close>, line 8), where its repository
  is (\<^verbatim>\<open>href\<close>, line 18) and which style sheets it loads (\<^verbatim>\<open>customCss\<close>,
  line 60). This theory states what makes these strings well formed and how
  they fit together. The predicates translate no line of the source; the
  property at the end is about the configured values.

  \<^item> \<open>wf_site\<close>, \<open>wf_base\<close>, \<open>wf_css_path\<close>, \<open>wf_social\<close>: the syntax of the
    strings;
  \<^item> \<open>github_repo\<close>, \<open>pages_deployment\<close>: a site is a GitHub Pages project site
    of a repository when its \<open>site\<close> is the owner's \<open>github.io\<close> host and its
    \<open>base\<close> is the repository's name; such a site has a well-formed \<open>site\<close> and
    \<open>base\<close> (\<open>pages_deployment_wf_site\<close>, \<open>pages_deployment_wf\<close>).
\<close>

section \<open>Definitions\<close>

definition host_of :: "url \<Rightarrow> string option" where
  "host_of u = (if prefix ''https://'' u then Some (drop 8 u) else None)"

definition wf_host :: "string \<Rightarrow> bool" where [wf_defs]:
  "wf_host h \<longleftrightarrow>
     2 \<le> length (split_on CHR ''.'' h) \<and> list_all wf_segment (split_on CHR ''.'' h)"

definition wf_site :: "url \<Rightarrow> bool" where [wf_defs]:
  "wf_site u \<longleftrightarrow> (case host_of u of None \<Rightarrow> False | Some h \<Rightarrow> wf_host h)"

definition wf_base :: "string \<Rightarrow> bool" where [wf_defs]:
  "wf_base b \<longleftrightarrow> (case b of [] \<Rightarrow> False | c # r \<Rightarrow> c = CHR ''/'' \<and> wf_slug r)"

definition wf_css_path :: "string \<Rightarrow> bool" where [wf_defs]:
  "wf_css_path p \<longleftrightarrow>
     (case segments p of
        [] \<Rightarrow> False
      | d # rest \<Rightarrow>
          d = ''.'' \<and> rest \<noteq> [] \<and> list_all (\<lambda>s. s \<noteq> [] \<and> s \<noteq> ''..'') rest
          \<and> suffix ''.css'' (last rest) \<and> last rest \<noteq> ''.css'')"

definition wf_social :: "social_link \<Rightarrow> bool" where [wf_defs]:
  "wf_social l \<longleftrightarrow>
     icon l \<noteq> [] \<and> social_label l \<noteq> [] \<and> (case host_of (href l) of None \<Rightarrow> False | Some r \<Rightarrow> r \<noteq> [])"

definition github_repo :: "url \<Rightarrow> (string \<times> string) option" where
  "github_repo u =
     (if prefix ''https://github.com/'' u then
        (case segments (drop 19 u) of
           [owner, repo] \<Rightarrow> if wf_segment owner \<and> wf_segment repo then Some (owner, repo) else None
         | _ \<Rightarrow> None)
      else None)"

definition pages_site :: "string \<Rightarrow> url" where
  "pages_site owner = ''https://'' @ owner @ ''.github.io''"

definition pages_base :: "string \<Rightarrow> string" where
  "pages_base repo = ''/'' @ repo"

definition pages_deployment :: "astro_config \<Rightarrow> social_link \<Rightarrow> bool" where
  "pages_deployment cfg l \<longleftrightarrow>
     (case github_repo (href l) of
        None \<Rightarrow> False
      | Some (owner, repo) \<Rightarrow> site cfg = pages_site owner \<and> base cfg = pages_base repo)"

section \<open>Syntax of the base\<close>

lemma wf_base_segments:
  assumes "wf_base b"
  shows "segments b = [] # segments (tl b)" and "list_all wf_segment (segments (tl b))"
proof -
  from assms obtain r where b: "b = CHR ''/'' # r" and r: "wf_slug r"
    by (auto simp: wf_base_def split: list.splits)
  from b show "segments b = [] # segments (tl b)" by (simp add: segments_def)
  from b r show "list_all wf_segment (segments (tl b))" by (simp add: wf_slug_def)
qed

section \<open>GitHub Pages\<close>

lemma github_repo_href:
  "github_repo u = Some (owner, repo) \<Longrightarrow> u = ''https://github.com/'' @ owner @ ''/'' @ repo"
proof -
  assume a: "github_repo u = Some (owner, repo)"
  then have p: "prefix ''https://github.com/'' u"
    by (simp add: github_repo_def split: if_splits)
  with a have "segments (drop 19 u) = [owner, repo]"
    by (auto simp: github_repo_def split: list.splits if_splits)
  with of_segments_segments [of "drop 19 u"] have "drop 19 u = of_segments [owner, repo]"
    by simp
  then have "drop 19 u = owner @ ''/'' @ repo" by (simp add: of_segments_def)
  moreover from p have "u = ''https://github.com/'' @ drop 19 u"
    by (auto simp: prefix_def)
  ultimately show ?thesis by simp
qed

lemma pages_deployment_wf:
  assumes "pages_deployment cfg l"
  shows "wf_base (base cfg)"
proof -
  from assms obtain owner repo where g: "github_repo (href l) = Some (owner, repo)"
    and b: "base cfg = pages_base repo"
    by (auto simp: pages_deployment_def split: option.splits)
  from g have "wf_segment repo"
    by (auto simp: github_repo_def split: if_splits list.splits)
  then have "wf_slug repo"
    by (simp add: wf_slug_def segments_single wf_segment_no_slash)
  with b show ?thesis by (simp add: wf_base_def pages_base_def)
qed

lemma wf_segment_github_io: "wf_segment ''github''" "wf_segment ''io''"
  by (simp_all add: wf_segment_def kebab_char_def char_class_defs)

lemma wf_site_pages_site: "wf_segment owner \<Longrightarrow> wf_site (pages_site owner)"
proof -
  assume o: "wf_segment owner"
  then have "split_on CHR ''.'' (owner @ ''.github.io'') = [owner, ''github'', ''io'']"
    by (simp add: split_on_append_sep wf_segment_no_dot)
  with o show ?thesis
    by (simp add: wf_site_def host_of_def pages_site_def wf_host_def wf_segment_github_io)
qed

lemma pages_deployment_wf_site:
  assumes "pages_deployment cfg l"
  shows "wf_site (site cfg)"
proof -
  from assms obtain owner repo where g: "github_repo (href l) = Some (owner, repo)"
    and s: "site cfg = pages_site owner"
    by (auto simp: pages_deployment_def split: option.splits)
  from g have "wf_segment owner"
    by (auto simp: github_repo_def split: if_splits list.splits)
  with s show ?thesis by (simp add: wf_site_pages_site)
qed

section \<open>The configured addresses\<close>

lemma github_repo_tedlt:
  "github_repo (href github_link) = Some (''brequet'', ''tedlt'')"
  by (simp add: github_repo_def github_link_def slug_eval)

section \<open>Properties of the configured addresses\<close>

text \<open>
  C3. The site is the GitHub Pages project site of the repository its social
  link points to: the link is \<open>https://github.com/<owner>/<repository>\<close>, the
  \<open>site\<close> is \<open>https://<owner>.github.io\<close>, the \<open>base\<close> is \<open>/<repository>\<close>, and
  the title of the site is the repository's name. The link is the one social
  link of the configuration.
\<close>

theorem tedlt_github_pages:
  "pages_deployment tedlt_config github_link \<and>
   github_repo (href github_link) = Some (''brequet'', title starlight_options) \<and>
   map_option social (starlight_of tedlt_config) = Some [github_link]"
  by (simp add: pages_deployment_def github_repo_tedlt pages_site_def pages_base_def
      config_unfold)

end
