(* ===== verification/Js_Lexer.thy ===== *)
theory Js_Lexer
  imports Tedlt_Prelude
begin

text \<open>
  A lexer for the part of JavaScript in which \<^verbatim>\<open>src/docs/astro.config.mjs\<close> is
  written: identifiers, double-quoted string literals without escapes, the
  punctuation of object, array and call syntax, white space and line comments.
  Anything else (numbers, single-quoted strings, template literals, escapes,
  operators, block comments) is refused with \<open>None\<close>, so that a text the lexer
  accepts is read the way JavaScript reads it. The lexer is a state machine:
  \<open>lex_step\<close> consumes one character, \<open>lex_run\<close> runs it over a string,
  \<open>lex_end\<close> closes the last token. It models the language of the source, not
  code of the repository.

  \<^item> \<open>lex_lines\<close> runs the machine line by line; \<open>lex_unlines\<close> shows that it
    computes \<open>lex\<close> of the lines joined by line breaks (rewriting a text of two
    thousand characters as one list is quadratic, line by line it is not);
  \<^item> \<open>lex_render\<close>: printing well-formed tokens and lexing the text gives the
    tokens back.
\<close>

section \<open>Definitions\<close>

datatype token =
    LBrace | RBrace | LBrack | RBrack | LParen | RParen
  | Colon | Comma | Semi
  | Ident string
  | Str string

datatype lex_state =
    Ready
  | In_Ident string
  | In_Str string
  | Seen_Slash
  | In_Comment

definition white :: "char \<Rightarrow> bool" where
  "white c \<longleftrightarrow> c = CHR '' '' \<or> c = CHR ''\<newline>'' \<or> c = CHR 0x09 \<or> c = CHR 0x0D"

definition ident_start :: "char \<Rightarrow> bool" where
  "ident_start c \<longleftrightarrow>
     c \<in> set lower_alpha \<or> c \<in> set upper_alpha \<or> c = CHR ''_'' \<or> c = CHR ''$''"

definition ident_char :: "char \<Rightarrow> bool" where
  "ident_char c \<longleftrightarrow> ident_start c \<or> c \<in> set digit_chars"

definition punct :: "char \<Rightarrow> token option" where
  "punct =
     map_of
       [(CHR ''{'', LBrace), (CHR ''}'', RBrace), (CHR ''['', LBrack), (CHR '']'', RBrack),
        (CHR ''('', LParen), (CHR '')'', RParen), (CHR '':'', Colon), (CHR '','', Comma),
        (CHR '';'', Semi)]"

definition lex_ready :: "char \<Rightarrow> (token list \<times> lex_state) option" where
  "lex_ready c =
     (if white c then Some ([], Ready)
      else if c = CHR 0x22 then Some ([], In_Str [])
      else if c = CHR ''/'' then Some ([], Seen_Slash)
      else if ident_start c then Some ([], In_Ident [c])
      else map_option (\<lambda>t. ([t], Ready)) (punct c))"

fun lex_step :: "lex_state \<Rightarrow> char \<Rightarrow> (token list \<times> lex_state) option" where
  "lex_step Ready c = lex_ready c"
| "lex_step (In_Ident s) c =
     (if ident_char c then Some ([], In_Ident (s @ [c]))
      else map_option (apfst ((#) (Ident s))) (lex_ready c))"
| "lex_step (In_Str s) c =
     (if c = CHR 0x22 then Some ([Str s], Ready)
      else if c = CHR 0x5C \<or> c = CHR ''\<newline>'' then None
      else Some ([], In_Str (s @ [c])))"
| "lex_step Seen_Slash c = (if c = CHR ''/'' then Some ([], In_Comment) else None)"
| "lex_step In_Comment c =
     (if c = CHR ''\<newline>'' then Some ([], Ready) else Some ([], In_Comment))"

fun lex_end :: "lex_state \<Rightarrow> token list option" where
  "lex_end Ready = Some []"
| "lex_end (In_Ident s) = Some [Ident s]"
| "lex_end (In_Str s) = None"
| "lex_end Seen_Slash = None"
| "lex_end In_Comment = Some []"

fun lex_run :: "lex_state \<Rightarrow> string \<Rightarrow> (token list \<times> lex_state) option" where
  "lex_run st [] = Some ([], st)"
| "lex_run st (c # cs) =
     (case lex_step st c of
        None \<Rightarrow> None
      | Some (ts, st') \<Rightarrow> map_option (apfst ((@) ts)) (lex_run st' cs))"

definition lex :: "string \<Rightarrow> token list option" where
  "lex s =
     (case lex_run Ready s of
        None \<Rightarrow> None
      | Some (ts, st) \<Rightarrow> map_option ((@) ts) (lex_end st))"

definition unlines :: "string list \<Rightarrow> string" where
  "unlines ls = join_with CHR ''\<newline>'' ls"

fun lex_lines :: "lex_state \<Rightarrow> string list \<Rightarrow> (token list \<times> lex_state) option" where
  "lex_lines st [] = Some ([], st)"
| "lex_lines st [l] = lex_run st l"
| "lex_lines st (l # l' # ls) =
     (case lex_run st l of
        None \<Rightarrow> None
      | Some (ts, st') \<Rightarrow>
          (case lex_step st' CHR ''\<newline>'' of
             None \<Rightarrow> None
           | Some (ts', st'') \<Rightarrow>
               map_option (apfst ((@) (ts @ ts'))) (lex_lines st'' (l' # ls))))"

definition lex_text :: "string list \<Rightarrow> token list option" where
  "lex_text ls =
     (case lex_lines Ready ls of
        None \<Rightarrow> None
      | Some (ts, st) \<Rightarrow> map_option ((@) ts) (lex_end st))"

fun token_text :: "token \<Rightarrow> string" where
  "token_text LBrace = ''{''"
| "token_text RBrace = ''}''"
| "token_text LBrack = ''[''"
| "token_text RBrack = '']''"
| "token_text LParen = ''(''"
| "token_text RParen = '')''"
| "token_text Colon = '':''"
| "token_text Comma = '',''"
| "token_text Semi = '';''"
| "token_text (Ident s) = s"
| "token_text (Str s) = CHR 0x22 # s @ [CHR 0x22]"

definition str_char :: "char \<Rightarrow> bool" where
  "str_char c \<longleftrightarrow> c \<noteq> CHR 0x22 \<and> c \<noteq> CHR 0x5C \<and> c \<noteq> CHR ''\<newline>''"

definition plain :: "string \<Rightarrow> bool" where
  "plain s \<longleftrightarrow> list_all str_char s"

fun wf_token :: "token \<Rightarrow> bool" where
  "wf_token (Ident s) \<longleftrightarrow> s \<noteq> [] \<and> ident_start (hd s) \<and> list_all ident_char s"
| "wf_token (Str s) \<longleftrightarrow> plain s"
| "wf_token t \<longleftrightarrow> True"

definition wf_ident :: "string \<Rightarrow> bool" where
  "wf_ident x \<longleftrightarrow> wf_token (Ident x)"

definition render :: "token list \<Rightarrow> string" where
  "render ts = concat (map (\<lambda>t. token_text t @ '' '') ts)"

fun wf_lex_state :: "lex_state \<Rightarrow> bool" where
  "wf_lex_state (In_Ident s) \<longleftrightarrow> wf_token (Ident s)"
| "wf_lex_state (In_Str s) \<longleftrightarrow> wf_token (Str s)"
| "wf_lex_state st \<longleftrightarrow> True"

lemmas lex_class_defs = white_def ident_start_def ident_char_def str_char_def

section \<open>Running the machine\<close>

lemma plain_simps [simp]:
  "plain []"
  "plain (c # s) \<longleftrightarrow> str_char c \<and> plain s"
  "plain (s @ s') \<longleftrightarrow> plain s \<and> plain s'"
  by (simp_all add: plain_def)


lemma lex_run_append:
  "lex_run st (a @ b) =
     (case lex_run st a of
        None \<Rightarrow> None
      | Some (ts, st') \<Rightarrow> map_option (apfst ((@) ts)) (lex_run st' b))"
proof (induction a arbitrary: st)
  case Nil
  show ?case by (simp add: option.map_ident apfst_def map_prod_def case_prod_unfold)
next
  case (Cons c a)
  show ?case
  proof (cases "lex_step st c")
    case None
    then show ?thesis by simp
  next
    case (Some r)
    obtain ts st' where r: "r = (ts, st')" by (cases r)
    show ?thesis
      using Some r Cons [of st']
      by (cases "lex_run st' a")
        (auto simp: option.map_comp comp_def apfst_def map_prod_def case_prod_unfold
          split: option.splits)
  qed
qed

lemma lex_run_unlines: "lex_run st (unlines ls) = lex_lines st ls"
proof (induction st ls rule: lex_lines.induct)
  case (1 st)
  show ?case by (simp add: unlines_def)
next
  case (2 st l)
  show ?case by (simp add: unlines_def)
next
  case (3 st l l' ls)
  have "unlines (l # l' # ls) = l @ CHR ''\<newline>'' # unlines (l' # ls)"
    by (simp add: unlines_def)
  then show ?case
    using "3.IH"
    by (auto simp: lex_run_append option.map_comp comp_def apfst_def map_prod_def
        case_prod_unfold split: option.splits)
qed

lemma lex_unlines: "lex (unlines ls) = lex_text ls"
  by (simp add: lex_def lex_text_def lex_run_unlines)

section \<open>The character classes are disjoint\<close>

lemma ident_start_char: "ident_start c \<Longrightarrow> ident_char c"
  by (simp add: ident_char_def)

lemma white_not_ident: "white c \<Longrightarrow> \<not> ident_char c"
  by (auto simp: lex_class_defs char_class_defs)

lemma quote_slash_not_ident [simp]: "\<not> ident_char CHR 0x22" "\<not> ident_char CHR ''/''"
  by (simp_all add: lex_class_defs char_class_defs)

lemma punct_SomeD: "punct c = Some t \<Longrightarrow> c \<in> set ''{}[]():,;''"
  by (auto simp: punct_def split: if_splits)

lemma punct_not_ident: "punct c = Some t \<Longrightarrow> \<not> ident_char c"
  by (drule punct_SomeD) (auto simp: lex_class_defs char_class_defs)

lemma punct_not_special:
  "punct c = Some t \<Longrightarrow> \<not> white c \<and> c \<noteq> CHR 0x22 \<and> c \<noteq> CHR ''/''"
  by (drule punct_SomeD) (auto simp: white_def)

lemma lex_ready_ident_start:
  "ident_start c \<Longrightarrow> lex_ready c = Some ([], In_Ident [c])"
  using white_not_ident [of c] by (auto simp: lex_ready_def dest: ident_start_char)

lemma lex_ready_space [simp]: "lex_ready CHR '' '' = Some ([], Ready)"
  by (simp add: lex_ready_def white_def)

lemma space_not_ident [simp]: "\<not> ident_char CHR '' ''"
  by (simp add: white_not_ident white_def)

lemma lex_ready_punct: "punct c = Some t \<Longrightarrow> lex_ready c = Some ([t], Ready)"
  using punct_not_special [of c t] punct_not_ident [of c t]
  by (auto simp: lex_ready_def dest: ident_start_char)

lemma apfst_append_Nil [simp]: "map_option (apfst ((@) [])) r = r"
  by (cases r) (simp_all add: apfst_def map_prod_def case_prod_unfold)

lemma lex_ready_tokens:
  "lex_ready c = Some (ts, st) \<Longrightarrow> list_all wf_token ts \<and> wf_lex_state st"
  by (auto simp: lex_ready_def punct_def ident_start_char split: if_splits)

section \<open>White space and comments\<close>

lemma lex_run_white: "list_all white s \<Longrightarrow> lex_run Ready s = Some ([], Ready)"
  by (induction s) (simp_all add: lex_ready_def)

lemma lex_run_comment:
  "CHR ''\<newline>'' \<notin> set s \<Longrightarrow> lex_run In_Comment s = Some ([], In_Comment)"
  by (induction s) auto

lemma lex_line_comment:
  "CHR ''\<newline>'' \<notin> set s \<Longrightarrow> lex_run Ready (''//'' @ s @ ''\<newline>'') = Some ([], Ready)"
  by (simp add: lex_ready_def white_def lex_run_append lex_run_comment)

section \<open>The tokens of the lexer are well formed\<close>

lemma lex_step_wf:
  "wf_lex_state st \<Longrightarrow> lex_step st c = Some (ts, st') \<Longrightarrow>
   list_all wf_token ts \<and> wf_lex_state st'"
  by (cases st) (auto simp: str_char_def dest: lex_ready_tokens split: if_splits)

lemma lex_run_wf:
  "wf_lex_state st \<Longrightarrow> lex_run st s = Some (ts, st') \<Longrightarrow>
   list_all wf_token ts \<and> wf_lex_state st'"
proof (induction s arbitrary: st ts)
  case Nil
  then show ?case by simp
next
  case (Cons c s)
  from Cons.prems(2) obtain ts1 st1 ts2
    where step: "lex_step st c = Some (ts1, st1)"
      and run: "lex_run st1 s = Some (ts2, st')" and ts: "ts = ts1 @ ts2"
    by (auto split: option.splits)
  from lex_step_wf [OF Cons.prems(1) step] Cons.IH [OF _ run] ts
  show ?case by simp
qed

lemma lex_end_wf: "wf_lex_state st \<Longrightarrow> lex_end st = Some ts \<Longrightarrow> list_all wf_token ts"
  by (cases st) auto

lemma lex_wf: "lex s = Some ts \<Longrightarrow> list_all wf_token ts"
  using lex_run_wf [of Ready s] lex_end_wf
  by (fastforce simp: lex_def split: option.splits)

section \<open>Printing and lexing\<close>

lemma lex_run_ident:
  "list_all ident_char s \<Longrightarrow>
   lex_run (In_Ident a) (s @ CHR '' '' # rest) =
     map_option (apfst ((#) (Ident (a @ s)))) (lex_run Ready rest)"
proof (induction s arbitrary: a)
  case Nil
  show ?case
    by (cases "lex_run Ready rest") (simp_all add: apfst_def map_prod_def case_prod_unfold)
next
  case (Cons c s)
  then show ?case using Cons.IH [of "a @ [c]"] by simp
qed

lemma lex_run_str:
  "plain s \<Longrightarrow>
   lex_run (In_Str a) (s @ CHR 0x22 # CHR '' '' # rest) =
     map_option (apfst ((#) (Str (a @ s)))) (lex_run Ready rest)"
proof (induction s arbitrary: a)
  case Nil
  show ?case
    by (cases "lex_run Ready rest") (simp_all add: apfst_def map_prod_def case_prod_unfold)
next
  case (Cons c s)
  then show ?case using Cons.IH [of "a @ [c]"] by (simp add: str_char_def)
qed

lemma lex_run_punct:
  "punct c \<noteq> None \<Longrightarrow>
   lex_run Ready (c # CHR '' '' # rest) =
     map_option (apfst ((#) (the (punct c)))) (lex_run Ready rest)"
  by (cases "lex_run Ready rest")
    (auto simp: lex_ready_punct apfst_def map_prod_def case_prod_unfold)

lemma lex_run_token:
  assumes "wf_token t"
  shows "lex_run Ready (token_text t @ CHR '' '' # rest) =
           map_option (apfst ((#) t)) (lex_run Ready rest)"
proof (cases t)
  case (Ident s)
  with assms obtain c s' where s: "s = c # s'" "ident_start c" "list_all ident_char s'"
    by (cases s) auto
  with Ident show ?thesis
    using lex_run_ident [of s' "[c]" rest] by (simp add: lex_ready_ident_start)
next
  case (Str s)
  with assms show ?thesis
    using lex_run_str [of s "[]" rest] by (simp add: lex_ready_def white_def)
qed (simp_all del: lex_run.simps add: lex_run_punct punct_def)

lemma lex_run_render:
  "list_all wf_token ts \<Longrightarrow> lex_run Ready (render ts) = Some (ts, Ready)"
  by (induction ts) (simp_all add: render_def lex_run_token)

lemma lex_render: "list_all wf_token ts \<Longrightarrow> lex (render ts) = Some ts"
  by (simp add: lex_def lex_run_render)

lemma lex_render_lex: "lex s = Some ts \<Longrightarrow> lex (render ts) = Some ts"
  by (rule lex_render) (rule lex_wf)

end
