(* ===== verification/Js_Parser.thy ===== *)
theory Js_Parser
  imports Js_Lexer
begin

text \<open>
  A parser for the token lists of \<open>Js_Lexer\<close>: the values the configuration
  file is made of (string literals, array and object literals, calls of a
  named function) and the three statements it uses (a named import, a default
  import, a default export). Like the lexer it models the language of the
  source and refuses what it does not cover.

  \<^item> \<open>parse_value\<close>, \<open>parse_elems\<close> and \<open>parse_members\<close> are a recursive descent
    with fuel; a trailing comma is accepted, as JavaScript does;
  \<open>value_of\<close>, \<open>elems_of\<close> and \<open>members_of\<close> are the grammar as an inductive
    relation, and \<open>parse_value_iff\<close> shows that the parser with the length of
    its input as fuel decides it, so the fuel never cuts a parse short;
  \<^item> \<open>tokens_of\<close> prints a value; \<open>parse_tokens_of\<close> is the round trip;
  \<^item> \<open>parse_module\<close> reads a sequence of statements, \<open>module_tokens\<close> prints
    one, \<open>parse_module_tokens\<close> is the round trip;
  \<^item> \<open>wf_js\<close> says that the strings and names of a value can be written as
    tokens; the printer of such a value writes well-formed tokens
    (\<open>wf_tokens_of\<close>) and the parser builds such values from well-formed tokens
    (\<open>value_of_wf\<close>, \<open>parse_statements_wf\<close>).
\<close>

section \<open>Values and statements\<close>

datatype js =
    JStr string
  | JArr "js list"
  | JObj "(string \<times> js) list"
  | JCall string "js list"

datatype statement =
    Import_Named "string list" string
  | Import_Default string string
  | Export_Default js

fun parse_value :: "nat \<Rightarrow> token list \<Rightarrow> (js \<times> token list) option"
  and parse_elems :: "nat \<Rightarrow> token \<Rightarrow> token list \<Rightarrow> (js list \<times> token list) option"
  and parse_members :: "nat \<Rightarrow> token list \<Rightarrow> ((string \<times> js) list \<times> token list) option"
where
  "parse_value 0 ts = None"
| "parse_value (Suc n) (Str s # ts) = Some (JStr s, ts)"
| "parse_value (Suc n) (LBrack # ts) = map_option (apfst JArr) (parse_elems n RBrack ts)"
| "parse_value (Suc n) (LBrace # ts) = map_option (apfst JObj) (parse_members n ts)"
| "parse_value (Suc n) (Ident f # LParen # ts) =
     map_option (apfst (JCall f)) (parse_elems n RParen ts)"
| "parse_value (Suc n) ts = None"
| "parse_elems 0 close ts = None"
| "parse_elems (Suc n) close [] = None"
| "parse_elems (Suc n) close (t # ts) =
     (if t = close then Some ([], ts)
      else (case parse_value n (t # ts) of
              None \<Rightarrow> None
            | Some (v, []) \<Rightarrow> None
            | Some (v, t' # rest) \<Rightarrow>
                if t' = Comma then map_option (apfst ((#) v)) (parse_elems n close rest)
                else if t' = close then Some ([v], rest)
                else None))"
| "parse_members 0 ts = None"
| "parse_members (Suc n) (RBrace # ts) = Some ([], ts)"
| "parse_members (Suc n) (Ident k # Colon # ts) =
     (case parse_value n ts of
        None \<Rightarrow> None
      | Some (v, []) \<Rightarrow> None
      | Some (v, t # rest) \<Rightarrow>
          if t = Comma then map_option (apfst ((#) (k, v))) (parse_members n rest)
          else if t = RBrace then Some ([(k, v)], rest)
          else None)"
| "parse_members (Suc n) ts = None"

fun parse_names :: "token list \<Rightarrow> (string list \<times> token list) option" where
  "parse_names (RBrace # ts) = Some ([], ts)"
| "parse_names (Ident x # Comma # ts) = map_option (apfst ((#) x)) (parse_names ts)"
| "parse_names (Ident x # RBrace # ts) = Some ([x], ts)"
| "parse_names ts = None"

fun parse_semi :: "statement \<Rightarrow> token list \<Rightarrow> (statement \<times> token list) option" where
  "parse_semi s (Semi # rest) = Some (s, rest)"
| "parse_semi s ts = None"

fun parse_from :: "(string \<Rightarrow> statement) \<Rightarrow> token list \<Rightarrow> (statement \<times> token list) option"
where
  "parse_from mk (Ident fr # Str m # rest) =
     (if fr = ''from'' then parse_semi (mk m) rest else None)"
| "parse_from mk ts = None"

fun parse_import :: "token list \<Rightarrow> (statement \<times> token list) option" where
  "parse_import (LBrace # ts) =
     (case parse_names ts of
        None \<Rightarrow> None
      | Some (xs, rest) \<Rightarrow> parse_from (Import_Named xs) rest)"
| "parse_import (Ident x # ts) = parse_from (Import_Default x) ts"
| "parse_import ts = None"

fun parse_export :: "token list \<Rightarrow> (statement \<times> token list) option" where
  "parse_export (Ident d # ts) =
     (if d = ''default'' then
        (case parse_value (length ts) ts of
           None \<Rightarrow> None
         | Some (v, rest) \<Rightarrow> parse_semi (Export_Default v) rest)
      else None)"
| "parse_export ts = None"

fun parse_statement :: "token list \<Rightarrow> (statement \<times> token list) option" where
  "parse_statement (Ident kw # ts) =
     (if kw = ''import'' then parse_import ts
      else if kw = ''export'' then parse_export ts
      else None)"
| "parse_statement ts = None"

fun parse_statements :: "nat \<Rightarrow> token list \<Rightarrow> statement list option" where
  "parse_statements n [] = Some []"
| "parse_statements 0 (t # ts) = None"
| "parse_statements (Suc n) (t # ts) =
     (case parse_statement (t # ts) of
        None \<Rightarrow> None
      | Some (s, rest) \<Rightarrow> map_option ((#) s) (parse_statements n rest))"

definition parse_module :: "token list \<Rightarrow> statement list option" where
  "parse_module ts = parse_statements (length ts) ts"

section \<open>The grammar\<close>

definition closer :: "token \<Rightarrow> bool" where
  "closer t \<longleftrightarrow> t = RBrack \<or> t = RParen"

inductive value_of :: "token list \<Rightarrow> js \<Rightarrow> token list \<Rightarrow> bool"
  and elems_of :: "token \<Rightarrow> token list \<Rightarrow> js list \<Rightarrow> token list \<Rightarrow> bool"
  and members_of :: "token list \<Rightarrow> (string \<times> js) list \<Rightarrow> token list \<Rightarrow> bool"
where
  Value_Str: "value_of (Str s # ts) (JStr s) ts"
| Value_Arr: "elems_of RBrack ts es rest \<Longrightarrow> value_of (LBrack # ts) (JArr es) rest"
| Value_Obj: "members_of ts ms rest \<Longrightarrow> value_of (LBrace # ts) (JObj ms) rest"
| Value_Call:
    "elems_of RParen ts es rest \<Longrightarrow> value_of (Ident f # LParen # ts) (JCall f es) rest"
| Elems_Nil: "closer close \<Longrightarrow> elems_of close (close # ts) [] ts"
| Elems_Last:
    "closer close \<Longrightarrow> value_of ts v (close # rest) \<Longrightarrow> elems_of close ts [v] rest"
| Elems_Cons:
    "value_of ts v (Comma # ts') \<Longrightarrow> elems_of close ts' vs rest \<Longrightarrow>
     elems_of close ts (v # vs) rest"
| Members_Nil: "members_of (RBrace # ts) [] ts"
| Members_Last:
    "value_of ts v (RBrace # rest) \<Longrightarrow> members_of (Ident k # Colon # ts) [(k, v)] rest"
| Members_Cons:
    "value_of ts v (Comma # ts') \<Longrightarrow> members_of ts' ms rest \<Longrightarrow>
     members_of (Ident k # Colon # ts) ((k, v) # ms) rest"

code_pred value_of .

fun tokens_of :: "js \<Rightarrow> token list"
  and elems_tokens :: "js list \<Rightarrow> token list"
  and members_tokens :: "(string \<times> js) list \<Rightarrow> token list"
where
  "tokens_of (JStr s) = [Str s]"
| "tokens_of (JArr es) = LBrack # elems_tokens es @ [RBrack]"
| "tokens_of (JObj ms) = LBrace # members_tokens ms @ [RBrace]"
| "tokens_of (JCall f es) = Ident f # LParen # elems_tokens es @ [RParen]"
| "elems_tokens [] = []"
| "elems_tokens [e] = tokens_of e"
| "elems_tokens (e # e' # es) = tokens_of e @ Comma # elems_tokens (e' # es)"
| "members_tokens [] = []"
| "members_tokens [(k, v)] = Ident k # Colon # tokens_of v"
| "members_tokens ((k, v) # m # ms) =
     Ident k # Colon # tokens_of v @ Comma # members_tokens (m # ms)"

definition within ::
  "(nat \<Rightarrow> token list \<Rightarrow> ('a \<times> token list) option) \<Rightarrow> token list \<Rightarrow> 'a \<Rightarrow> token list \<Rightarrow> bool"
where
  "within p ts r rest \<longleftrightarrow>
     length rest < length ts \<and>
     (\<forall>m. length ts - length rest \<le> m \<longrightarrow> p m ts = Some (r, rest))"

fun names_tokens :: "string list \<Rightarrow> token list" where
  "names_tokens [] = []"
| "names_tokens [x] = [Ident x]"
| "names_tokens (x # y # xs) = Ident x # Comma # names_tokens (y # xs)"

fun statement_tokens :: "statement \<Rightarrow> token list" where
  "statement_tokens (Import_Named xs m) =
     Ident ''import'' # LBrace # names_tokens xs @ [RBrace, Ident ''from'', Str m, Semi]"
| "statement_tokens (Import_Default x m) =
     [Ident ''import'', Ident x, Ident ''from'', Str m, Semi]"
| "statement_tokens (Export_Default v) =
     Ident ''export'' # Ident ''default'' # tokens_of v @ [Semi]"

definition module_tokens :: "statement list \<Rightarrow> token list" where
  "module_tokens ss = concat (map statement_tokens ss)"

fun wf_js :: "js \<Rightarrow> bool" where
  "wf_js (JStr s) \<longleftrightarrow> plain s"
| "wf_js (JArr es) \<longleftrightarrow> list_all wf_js es"
| "wf_js (JObj ms) \<longleftrightarrow> list_all (\<lambda>m. wf_ident (fst m) \<and> wf_js (snd m)) ms"
| "wf_js (JCall f es) \<longleftrightarrow> wf_ident f \<and> list_all wf_js es"

fun wf_statement :: "statement \<Rightarrow> bool" where
  "wf_statement (Export_Default v) \<longleftrightarrow> wf_js v"
| "wf_statement s \<longleftrightarrow> True"

section \<open>The parser decides the grammar\<close>

lemmas grammar_intros = value_of_elems_of_members_of.intros

inductive_simps value_of_JStr: "value_of ts (JStr s) rest"
inductive_simps elems_of_Nil: "elems_of close ts [] rest"
inductive_simps members_of_Nil: "members_of ts [] rest"
inductive_cases value_of_NilE: "value_of [] v rest"

lemma closer_simps [simp]: "closer RBrack" "closer RParen" "\<not> closer Comma"
  by (simp_all add: closer_def)

lemma parse_sound:
  "parse_value n ts = Some (v, rest) \<Longrightarrow> value_of ts v rest"
  "closer close \<Longrightarrow> parse_elems n close ts' = Some (vs, rest') \<Longrightarrow> elems_of close ts' vs rest'"
  "parse_members n ts'' = Some (ms, rest'') \<Longrightarrow> members_of ts'' ms rest''"
proof (induction n ts and n close ts' and n ts'' arbitrary: v rest and vs rest' and ms rest''
    rule: parse_value_parse_elems_parse_members.induct)
qed (fastforce intro: grammar_intros split: option.splits list.splits if_splits)+


lemma withinI:
  assumes "length rest < length ts"
    and "\<And>m. length ts - length rest \<le> Suc m \<Longrightarrow> p (Suc m) ts = Some (r, rest)"
  shows "within p ts r rest"
  unfolding within_def
proof (intro conjI allI impI)
  fix m assume m: "length ts - length rest \<le> m"
  with assms(1) obtain m' where "m = Suc m'" by (cases m) auto
  with assms(2) m show "p m ts = Some (r, rest)" by simp
qed (rule assms(1))

lemma within_less: "within p ts r rest \<Longrightarrow> length rest < length ts"
  by (simp add: within_def)

lemma within_fuel:
  "within p ts r rest \<Longrightarrow> length ts - length rest \<le> m \<Longrightarrow> p m ts = Some (r, rest)"
  by (simp add: within_def)

lemma value_of_not_Nil: "value_of ts v rest \<Longrightarrow> ts \<noteq> []"
  by (auto elim: value_of_NilE)

lemma value_of_hd:
  "value_of ts v rest \<Longrightarrow> \<exists>t ts'. ts = t # ts' \<and> \<not> closer t \<and> t \<noteq> Comma \<and> t \<noteq> RBrace"
  by (cases rule: value_of.cases) (auto simp: closer_def)

lemma elems_of_closer: "elems_of close ts vs rest \<Longrightarrow> closer close"
  by (induction rule: value_of_elems_of_members_of.inducts(2)) simp_all

lemma within_value_Str: "within parse_value (Str s # ts) (JStr s) ts"
  by (rule withinI) simp_all

lemma within_value_Arr:
  assumes "within (\<lambda>n. parse_elems n RBrack) ts es rest"
  shows "within parse_value (LBrack # ts) (JArr es) rest"
  using within_less [OF assms] by (intro withinI) (simp_all add: within_fuel [OF assms])

lemma within_value_Obj:
  assumes "within parse_members ts ms rest"
  shows "within parse_value (LBrace # ts) (JObj ms) rest"
  using within_less [OF assms] by (intro withinI) (simp_all add: within_fuel [OF assms])

lemma within_value_Call:
  assumes "within (\<lambda>n. parse_elems n RParen) ts es rest"
  shows "within parse_value (Ident f # LParen # ts) (JCall f es) rest"
  using within_less [OF assms] by (intro withinI) (simp_all add: within_fuel [OF assms])

lemma within_elems_Nil: "within (\<lambda>n. parse_elems n close) (close # ts) [] ts"
  by (rule withinI) simp_all

lemma within_elems_Last:
  assumes "within parse_value (t # ts) v (close # rest)" and "t \<noteq> close" "close \<noteq> Comma"
  shows "within (\<lambda>n. parse_elems n close) (t # ts) [v] rest"
  using within_less [OF assms(1)] assms(2,3)
  by (intro withinI) (auto simp: within_fuel [OF assms(1)])

lemma within_elems_Cons:
  assumes "within parse_value (t # ts) v (Comma # ts')"
    and "within (\<lambda>n. parse_elems n close) ts' vs rest" and "t \<noteq> close"
  shows "within (\<lambda>n. parse_elems n close) (t # ts) (v # vs) rest"
  using within_less [OF assms(1)] within_less [OF assms(2)] assms(3)
  by (intro withinI) (auto simp: within_fuel [OF assms(1)] within_fuel [OF assms(2)])

lemma within_members_Nil: "within parse_members (RBrace # ts) [] ts"
  by (rule withinI) simp_all

lemma within_members_Last:
  assumes "within parse_value ts v (RBrace # rest)"
  shows "within parse_members (Ident k # Colon # ts) [(k, v)] rest"
  using within_less [OF assms] by (intro withinI) (auto simp: within_fuel [OF assms])

lemma within_members_Cons:
  assumes "within parse_value ts v (Comma # ts')" and "within parse_members ts' ms rest"
  shows "within parse_members (Ident k # Colon # ts) ((k, v) # ms) rest"
  using within_less [OF assms(1)] within_less [OF assms(2)]
  by (intro withinI) (auto simp: within_fuel [OF assms(1)] within_fuel [OF assms(2)])

lemmas within_intros =
  within_value_Str within_value_Arr within_value_Obj within_value_Call within_elems_Nil
  within_members_Nil within_members_Last within_members_Cons

lemma parse_complete:
  "value_of ts v rest \<Longrightarrow> within parse_value ts v rest"
  "elems_of close ts' vs rest' \<Longrightarrow> within (\<lambda>n. parse_elems n close) ts' vs rest'"
  "members_of ts'' ms rest'' \<Longrightarrow> within parse_members ts'' ms rest''"
proof (induction rule: value_of_elems_of_members_of.inducts)
  case (Elems_Last close ts v rest)
  from value_of_hd [OF Elems_Last.hyps(2)] Elems_Last.hyps(1)
  obtain t ts0 where "ts = t # ts0" "t \<noteq> close" "close \<noteq> Comma"
    by (auto simp: closer_def)
  with Elems_Last.IH show ?case by (simp add: within_elems_Last)
next
  case (Elems_Cons ts v ts' close vs rest)
  from value_of_hd [OF Elems_Cons.hyps(1)] elems_of_closer [OF Elems_Cons.hyps(2)]
  obtain t ts0 where "ts = t # ts0" "t \<noteq> close" by auto
  with Elems_Cons.IH show ?case by (simp add: within_elems_Cons)
qed (simp_all add: within_intros)

theorem parse_value_iff:
  "parse_value (length ts) ts = Some (v, rest) \<longleftrightarrow> value_of ts v rest"
  using parse_sound(1) within_fuel [OF parse_complete(1), of ts v rest "length ts"]
  by auto

lemma parse_value_fuel:
  "parse_value n ts = Some r \<Longrightarrow> parse_value (length ts) ts = Some r"
  using parse_value_iff [of ts "fst r" "snd r"] parse_sound(1) [of n ts "fst r" "snd r"]
  by simp

lemma value_of_functional:
  "value_of ts v rest \<Longrightarrow> value_of ts v' rest' \<Longrightarrow> v = v' \<and> rest = rest'"
  using parse_value_iff [of ts] by (metis option.inject prod.inject)

lemma value_of_tokens:
  "value_of (tokens_of v @ rest) v rest"
  "closer close \<Longrightarrow> elems_of close (elems_tokens vs @ close # rest') vs rest'"
  "members_of (members_tokens ms @ RBrace # rest'') ms rest''"
proof (induction v and vs and ms arbitrary: rest and rest' close and rest''
    rule: tokens_of_elems_tokens_members_tokens.induct)
qed (auto intro: grammar_intros)

lemma wf_tokens_of:
  "wf_js v \<Longrightarrow> list_all wf_token (tokens_of v)"
  "list_all wf_js vs \<Longrightarrow> list_all wf_token (elems_tokens vs)"
  "list_all (\<lambda>m. wf_ident (fst m) \<and> wf_js (snd m)) ms \<Longrightarrow>
   list_all wf_token (members_tokens ms)"
  by (induction v and vs and ms rule: tokens_of_elems_tokens_members_tokens.induct)
    (simp_all add: wf_ident_def)

theorem parse_tokens_of:
  "parse_value (length (tokens_of v)) (tokens_of v) = Some (v, [])"
  using value_of_tokens(1) [of v "[]"] by (simp add: parse_value_iff)


section \<open>Statements\<close>

lemma parse_value_less: "parse_value n ts = Some (v, rest) \<Longrightarrow> length rest < length ts"
  by (blast dest: parse_sound(1) parse_complete(1) within_less)

lemma parse_value_enough:
  "value_of ts v rest \<Longrightarrow> length ts \<le> m \<Longrightarrow> parse_value m ts = Some (v, rest)"
  by (rule within_fuel [OF parse_complete(1)]) simp_all

lemma parse_names_less: "parse_names ts = Some (xs, rest) \<Longrightarrow> length rest < length ts"
  by (induction ts arbitrary: xs rule: parse_names.induct) fastforce+

lemma parse_semi_less: "parse_semi s ts = Some (s', rest) \<Longrightarrow> length rest < length ts"
  by (cases "(s, ts)" rule: parse_semi.cases) simp_all

lemma parse_from_less: "parse_from mk ts = Some (s, rest) \<Longrightarrow> length rest < length ts"
  by (cases "(mk, ts)" rule: parse_from.cases)
    (auto split: if_splits dest!: parse_semi_less)

lemma parse_import_less: "parse_import ts = Some (s, rest) \<Longrightarrow> length rest < length ts"
  by (cases ts rule: parse_import.cases)
    (fastforce split: option.splits dest!: parse_names_less parse_from_less)+

lemma parse_export_less: "parse_export ts = Some (s, rest) \<Longrightarrow> length rest < length ts"
  by (cases ts rule: parse_export.cases)
    (fastforce split: if_splits option.splits dest!: parse_value_less parse_semi_less)+

lemma parse_statement_less:
  "parse_statement ts = Some (s, rest) \<Longrightarrow> length rest < length ts"
  by (cases ts rule: parse_statement.cases)
    (auto split: if_splits dest!: parse_import_less parse_export_less)

lemma parse_statements_fuel:
  "length ts \<le> n \<Longrightarrow> length ts \<le> m \<Longrightarrow> parse_statements n ts = parse_statements m ts"
proof (induction n arbitrary: ts m)
  case 0
  then show ?case by simp
next
  case (Suc n)
  show ?case
  proof (cases ts)
    case Nil
    then show ?thesis by simp
  next
    case (Cons t ts')
    with Suc.prems obtain m' where m: "m = Suc m'" by (cases m) auto
    have "parse_statements n rest = parse_statements m' rest"
      if "parse_statement ts = Some (s, rest)" for s rest
      using parse_statement_less [OF that] Suc.prems m by (intro Suc.IH) simp_all
    with Cons m show ?thesis by (auto split: option.splits)
  qed
qed

lemma parse_statements_mono:
  "parse_statements n ts = Some ss \<Longrightarrow> n \<le> m \<Longrightarrow> parse_statements m ts = Some ss"
proof (induction n arbitrary: ts m ss)
  case 0
  then show ?case by (cases ts) simp_all
next
  case (Suc n)
  show ?case
  proof (cases ts)
    case Nil
    with Suc.prems show ?thesis by simp
  next
    case (Cons t ts')
    with Suc.prems obtain m' where m: "m = Suc m'" "n \<le> m'" by (cases m) auto
    with Cons Suc.prems(1) Suc.IH [of _ _ m'] show ?thesis
      by (auto split: option.splits)
  qed
qed

lemma parse_module_fuel: "parse_statements n ts = Some ss \<Longrightarrow> parse_module ts = Some ss"
  using parse_statements_fuel [of ts n "length ts"] parse_statements_mono [of n ts ss "length ts"]
  by (cases "length ts \<le> n") (simp_all add: parse_module_def)

lemma parse_names_tokens:
  "parse_names (names_tokens xs @ RBrace # rest) = Some (xs, rest)"
  by (induction xs rule: names_tokens.induct) simp_all

lemma parse_statement_tokens:
  "parse_statement (statement_tokens s @ rest) = Some (s, rest)"
proof (cases s)
  case (Export_Default v)
  have "parse_value (length (tokens_of v @ Semi # rest)) (tokens_of v @ Semi # rest) =
          Some (v, Semi # rest)"
    by (simp only: parse_value_iff value_of_tokens(1))
  with Export_Default show ?thesis by simp
qed (simp_all add: parse_names_tokens)

lemma statement_tokens_not_Nil: "statement_tokens s \<noteq> []"
  by (cases s) simp_all

lemma parse_statements_tokens:
  "length (module_tokens ss) \<le> n \<Longrightarrow> parse_statements n (module_tokens ss) = Some ss"
proof (induction ss arbitrary: n)
  case Nil
  show ?case by (simp add: module_tokens_def)
next
  case (Cons s ss)
  obtain t ts where st: "statement_tokens s = t # ts"
    using statement_tokens_not_Nil [of s] by (cases "statement_tokens s") auto
  with Cons.prems obtain n' where n: "n = Suc n'" "length (module_tokens ss) \<le> n'"
    by (cases n) (auto simp: module_tokens_def)
  have "parse_statement (t # ts @ module_tokens ss) = Some (s, module_tokens ss)"
    using parse_statement_tokens [of s "module_tokens ss"] st by simp
  with Cons.IH [OF n(2)] n(1) st show ?case by (simp add: module_tokens_def)
qed

theorem parse_module_tokens: "parse_module (module_tokens ss) = Some ss"
  by (simp add: parse_module_def parse_statements_tokens)

section \<open>Well-formed tokens give well-formed values\<close>

lemma value_of_wf:
  "value_of ts v rest \<Longrightarrow> list_all wf_token ts \<Longrightarrow> wf_js v \<and> list_all wf_token rest"
  "elems_of close ts' vs rest' \<Longrightarrow> list_all wf_token ts' \<Longrightarrow>
   list_all wf_js vs \<and> list_all wf_token rest'"
  "members_of ts'' ms rest'' \<Longrightarrow> list_all wf_token ts'' \<Longrightarrow>
   list_all (\<lambda>m. wf_ident (fst m) \<and> wf_js (snd m)) ms \<and> list_all wf_token rest''"
  by (induction rule: value_of_elems_of_members_of.inducts) (auto simp: wf_ident_def)

lemma parse_semi_wf:
  "parse_semi s ts = Some (s', rest) \<Longrightarrow> list_all wf_token ts \<Longrightarrow> wf_statement s \<Longrightarrow>
   wf_statement s' \<and> list_all wf_token rest"
  by (cases "(s, ts)" rule: parse_semi.cases) auto

lemma parse_from_wf:
  "parse_from mk ts = Some (s, rest) \<Longrightarrow> list_all wf_token ts \<Longrightarrow> (\<And>m. wf_statement (mk m)) \<Longrightarrow>
   wf_statement s \<and> list_all wf_token rest"
  by (cases "(mk, ts)" rule: parse_from.cases)
    (auto split: if_splits dest!: parse_semi_wf)

lemma parse_names_wf:
  "parse_names ts = Some (xs, rest) \<Longrightarrow> list_all wf_token ts \<Longrightarrow> list_all wf_token rest"
  by (induction ts arbitrary: xs rule: parse_names.induct) fastforce+

lemma parse_import_wf:
  "parse_import ts = Some (s, rest) \<Longrightarrow> list_all wf_token ts \<Longrightarrow>
   wf_statement s \<and> list_all wf_token rest"
  by (cases ts rule: parse_import.cases)
    (fastforce split: option.splits dest!: parse_names_wf parse_from_wf)+

lemma parse_export_wf:
  "parse_export ts = Some (s, rest) \<Longrightarrow> list_all wf_token ts \<Longrightarrow>
   wf_statement s \<and> list_all wf_token rest"
  by (cases ts rule: parse_export.cases)
    (fastforce split: if_splits option.splits
      dest!: parse_sound(1) value_of_wf(1) parse_semi_wf)+

lemma parse_statement_wf:
  "parse_statement ts = Some (s, rest) \<Longrightarrow> list_all wf_token ts \<Longrightarrow>
   wf_statement s \<and> list_all wf_token rest"
  by (cases ts rule: parse_statement.cases)
    (auto split: if_splits dest!: parse_import_wf parse_export_wf)

lemma parse_statements_wf:
  "parse_statements n ts = Some ss \<Longrightarrow> list_all wf_token ts \<Longrightarrow> list_all wf_statement ss"
proof (induction n ts arbitrary: ss rule: parse_statements.induct)
  case (3 n t ts)
  then show ?case
    by (fastforce split: option.splits dest!: parse_statement_wf)
qed simp_all

end
