(* ===== verification/Js_Scope.thy ===== *)
theory Js_Scope
  imports Js_Parser
begin

text \<open>
  Names in a module. In the part of JavaScript that \<open>Js_Parser\<close> reads, the
  only names a module binds are those of its imports, and the only names it
  uses are those of the functions its exported value calls. Loading a module
  that imports one name twice is a syntax error, and evaluating a call of a
  name that is not bound throws; an import that nothing uses is dead. A module
  without any of the three is \<open>well_scoped\<close>.

  \<^item> \<open>calls\<close>: the functions a value calls, in the order of evaluation;
  \<open>imported\<close> and \<open>called\<close>: the names a statement binds and uses;
  \<^item> \<open>well_scoped\<close>: no name is imported twice, every function called is
    imported, every import is called.
\<close>

section \<open>Definitions\<close>

fun calls :: "js \<Rightarrow> string list" where
  "calls (JStr s) = []"
| "calls (JArr es) = concat (map calls es)"
| "calls (JObj ms) = concat (map (\<lambda>m. calls (snd m)) ms)"
| "calls (JCall f es) = f # concat (map calls es)"

fun imported :: "statement \<Rightarrow> string list" where
  "imported (Import_Named xs m) = xs"
| "imported (Import_Default x m) = [x]"
| "imported (Export_Default v) = []"

fun called :: "statement \<Rightarrow> string list" where
  "called (Export_Default v) = calls v"
| "called s = []"

definition bindings :: "statement list \<Rightarrow> string list" where
  "bindings ss = concat (map imported ss)"

definition uses :: "statement list \<Rightarrow> string list" where
  "uses ss = concat (map called ss)"

definition well_scoped :: "statement list \<Rightarrow> bool" where
  "well_scoped ss \<longleftrightarrow>
     distinct (bindings ss) \<and>
     list_all (\<lambda>f. f \<in> set (bindings ss)) (uses ss) \<and>
     list_all (\<lambda>x. x \<in> set (uses ss)) (bindings ss)"

lemmas scope_defs = well_scoped_def bindings_def uses_def

section \<open>Names and tokens\<close>

text \<open>
  The functions a value calls are names of the text: each is an identifier
  token of the value's tokens, followed by an opening parenthesis.
\<close>

lemma calls_tokens:
  "f \<in> set (calls v) \<Longrightarrow> Ident f \<in> set (tokens_of v)"
  "f \<in> set (concat (map calls vs)) \<Longrightarrow> Ident f \<in> set (elems_tokens vs)"
  "f \<in> set (concat (map (\<lambda>m. calls (snd m)) ms)) \<Longrightarrow> Ident f \<in> set (members_tokens ms)"
  by (induction v and vs and ms rule: tokens_of_elems_tokens_members_tokens.induct) auto

lemma wf_js_calls: "wf_js v \<Longrightarrow> list_all wf_ident (calls v)"
  by (induction v rule: calls.induct) (auto simp: list_all_iff)

lemma imported_tokens: "x \<in> set (imported s) \<Longrightarrow> Ident x \<in> set (statement_tokens s)"
proof (cases s)
  case (Import_Named xs m)
  have "x \<in> set xs \<Longrightarrow> Ident x \<in> set (names_tokens xs)" for xs
    by (induction xs rule: names_tokens.induct) auto
  with Import_Named show "x \<in> set (imported s) \<Longrightarrow> ?thesis" by auto
qed auto

section \<open>Scoping of a sequence of statements\<close>

lemma bindings_append [simp]: "bindings (a @ b) = bindings a @ bindings b"
  and uses_append [simp]: "uses (a @ b) = uses a @ uses b"
  by (simp_all add: bindings_def uses_def)

lemma well_scoped_bound: "well_scoped ss \<Longrightarrow> set (uses ss) = set (bindings ss)"
  by (auto simp: well_scoped_def list_all_iff)

lemma well_scoped_Nil: "well_scoped []"
  by (simp add: scope_defs)

lemma well_scoped_unbound:
  "f \<in> set (calls v) \<Longrightarrow> f \<notin> set (bindings ss) \<Longrightarrow> \<not> well_scoped (ss @ [Export_Default v])"
  by (auto simp: scope_defs list_all_iff)

end
