(* ===== verification/Config_Reader.thy ===== *)
theory Config_Reader
  imports Js_Scope Site_Config Config_Source
begin

text \<open>
  From the text of \<^verbatim>\<open>src/docs/astro.config.mjs\<close> to the records of
  \<open>Site_Config\<close>. \<open>decode_config\<close> reads the value of the default export as an
  \<open>astro_config\<close>: an object is read by its keys (the last of two equal keys
  wins, as in JavaScript; a missing or an unknown key is an error), an array as
  a list, a call of \<^verbatim>\<open>starlight\<close> as the constructor \<open>Starlight\<close>.
  \<open>read_module\<close> checks that the module is the two imports of the file
  followed by the default export, so that \<^verbatim>\<open>defineConfig\<close> and \<^verbatim>\<open>starlight\<close> are
  the functions of Astro and Starlight. \<open>read_config\<close> composes lexer, parser
  and decoder.

  \<^item> \<open>encode_config\<close> writes a configuration as a value, \<open>config_tokens\<close> as
    tokens and \<open>print_config\<close> as text; \<open>decode_encode_config\<close> and
    \<open>read_config_tokens\<close> are the round trips on values and on tokens, and
    the round trip on text follows for configurations whose strings can be
    written between double quotes (\<open>plain_config\<close>), which every configuration
    the reader returns is (\<open>read_config_plain\<close>);
  \<^item> the last section evaluates the reader, and the scoping of \<open>Js_Scope\<close>, on
    the text of the file.
\<close>

section \<open>Definitions\<close>

definition field :: "(string \<times> js) list \<Rightarrow> string \<Rightarrow> js option" where
  "field ms k = map_of (rev ms) k"

definition has_keys :: "(string \<times> js) list \<Rightarrow> string list \<Rightarrow> bool" where
  "has_keys ms ks \<longleftrightarrow> set (map fst ms) = set ks"

fun str_of :: "js \<Rightarrow> string option" where
  "str_of (JStr s) = Some s"
| "str_of v = None"

definition decode_list :: "(js \<Rightarrow> 'a option) \<Rightarrow> js \<Rightarrow> 'a list option" where
  "decode_list d v = (case v of JArr es \<Rightarrow> those (map d es) | _ \<Rightarrow> None)"

lemma size_member:
  assumes "(k, v) \<in> set ms"
  shows "size v < size (JObj ms)"
proof -
  have "size v \<le> size_prod (\<lambda>_. 0) size (k, v)"
    by (simp add: size_prod_simp)
  with assms have "size v \<le> size_list (size_prod (\<lambda>_. 0) size) ms"
    by (rule size_list_estimation')
  then show ?thesis unfolding js.size by linarith
qed

lemma size_elem:
  assumes "e \<in> set es"
  shows "size e < size (JArr es)"
proof -
  from assms have "size e \<le> size_list size es"
    by (rule size_list_estimation') simp
  then show ?thesis unfolding js.size by linarith
qed

lemma field_member: "field ms k = Some v \<Longrightarrow> (k, v) \<in> set ms"
  unfolding field_def by (drule map_of_SomeD) simp

lemma size_field: "field ms k = Some v \<Longrightarrow> size v < size (JObj ms)"
  by (rule size_member) (rule field_member)

lemma size_field_elem:
  assumes "field ms k = Some (JArr es)" and "e \<in> set es"
  shows "size e < size (JObj ms)"
  using size_field [OF assms(1)] size_elem [OF assms(2)] by (rule less_trans [rotated])

function (sequential) decode_entry :: "js \<Rightarrow> sidebar_entry option" where
  "decode_entry (JObj ms) =
     (case (field ms ''label'', field ms ''slug'', field ms ''items'') of
        (Some (JStr l), Some (JStr s), None) \<Rightarrow>
          if has_keys ms [''label'', ''slug''] then Some (Link l s) else None
      | (Some (JStr l), None, Some (JArr es)) \<Rightarrow>
          if has_keys ms [''label'', ''items'']
          then map_option (Group l) (those (map decode_entry es)) else None
      | _ \<Rightarrow> None)"
| "decode_entry v = None"
  by pat_completeness auto

termination
  apply (relation "measure size")
  apply simp
  apply (simp del: js.size)
  apply (metis size_field_elem)
  done

definition decode_social :: "js \<Rightarrow> social_link option" where
  "decode_social v =
     (case v of
        JObj ms \<Rightarrow>
          (case (field ms ''icon'', field ms ''label'', field ms ''href'') of
             (Some (JStr i), Some (JStr l), Some (JStr h)) \<Rightarrow>
               if has_keys ms [''icon'', ''label'', ''href'']
               then Some \<lparr>icon = i, social_label = l, href = h\<rparr> else None
           | _ \<Rightarrow> None)
      | _ \<Rightarrow> None)"

definition decode_starlight :: "js \<Rightarrow> starlight_config option" where
  "decode_starlight v =
     (case v of
        JObj ms \<Rightarrow>
          (case (field ms ''title'', field ms ''description'',
                 Option.bind (field ms ''social'') (decode_list decode_social),
                 Option.bind (field ms ''sidebar'') (decode_list decode_entry),
                 Option.bind (field ms ''customCss'') (decode_list str_of)) of
             (Some (JStr t), Some (JStr d), Some so, Some sb, Some css) \<Rightarrow>
               if has_keys ms [''title'', ''description'', ''social'', ''sidebar'', ''customCss'']
               then Some \<lparr>title = t, description = d, social = so, sidebar = sb,
                            customCss = css\<rparr>
               else None
           | _ \<Rightarrow> None)
      | _ \<Rightarrow> None)"

definition decode_integration :: "js \<Rightarrow> integration option" where
  "decode_integration v =
     (case v of
        JCall f [opts] \<Rightarrow>
          if f = ''starlight'' then map_option Starlight (decode_starlight opts) else None
      | _ \<Rightarrow> None)"

definition decode_config :: "js \<Rightarrow> astro_config option" where
  "decode_config v =
     (case v of
        JCall f [JObj ms] \<Rightarrow>
          if f = ''defineConfig'' then
            (case (field ms ''site'', field ms ''base'',
                   Option.bind (field ms ''integrations'') (decode_list decode_integration)) of
               (Some (JStr s), Some (JStr b), Some is) \<Rightarrow>
                 if has_keys ms [''site'', ''base'', ''integrations'']
                 then Some \<lparr>site = s, base = b, integrations = is\<rparr> else None
             | _ \<Rightarrow> None)
          else None
      | _ \<Rightarrow> None)"

definition config_imports :: "statement list" where
  "config_imports =
     [Import_Named [''defineConfig''] ''astro/config'',
      Import_Default ''starlight'' ''@astrojs/starlight'']"

definition read_module :: "statement list \<Rightarrow> astro_config option" where
  "read_module ss =
     (case ss of
        [i1, i2, Export_Default v] \<Rightarrow>
          if [i1, i2] = config_imports then decode_config v else None
      | _ \<Rightarrow> None)"

definition read_tokens :: "token list \<Rightarrow> astro_config option" where
  "read_tokens ts = Option.bind (parse_module ts) read_module"

definition read_config :: "string \<Rightarrow> astro_config option" where
  "read_config s = Option.bind (lex s) read_tokens"

definition read_lines :: "string list \<Rightarrow> astro_config option" where
  "read_lines ls = Option.bind (lex_text ls) read_tokens"

fun obj_of_entry :: "sidebar_entry \<Rightarrow> js" where
  "obj_of_entry (Link l s) = JObj [(''label'', JStr l), (''slug'', JStr s)]"
| "obj_of_entry (Group l es) = JObj [(''label'', JStr l), (''items'', JArr (map obj_of_entry es))]"

definition encode_social :: "social_link \<Rightarrow> js" where
  "encode_social l =
     JObj [(''icon'', JStr (icon l)), (''label'', JStr (social_label l)),
           (''href'', JStr (href l))]"

definition encode_starlight :: "starlight_config \<Rightarrow> js" where
  "encode_starlight c =
     JObj [(''title'', JStr (title c)),
           (''description'', JStr (description c)),
           (''social'', JArr (map encode_social (social c))),
           (''sidebar'', JArr (map obj_of_entry (sidebar c))),
           (''customCss'', JArr (map JStr (customCss c)))]"

fun encode_integration :: "integration \<Rightarrow> js" where
  "encode_integration (Starlight c) = JCall ''starlight'' [encode_starlight c]"

definition encode_config :: "astro_config \<Rightarrow> js" where
  "encode_config c =
     JCall ''defineConfig''
       [JObj [(''site'', JStr (site c)), (''base'', JStr (base c)),
              (''integrations'', JArr (map encode_integration (integrations c)))]]"

definition config_module :: "astro_config \<Rightarrow> statement list" where
  "config_module c = config_imports @ [Export_Default (encode_config c)]"

definition config_tokens :: "astro_config \<Rightarrow> token list" where
  "config_tokens c = module_tokens (config_module c)"

definition print_config :: "astro_config \<Rightarrow> string" where
  "print_config c = render (config_tokens c)"

fun plain_entry :: "sidebar_entry \<Rightarrow> bool" where
  "plain_entry (Link l s) \<longleftrightarrow> plain l \<and> plain s"
| "plain_entry (Group l es) \<longleftrightarrow> plain l \<and> list_all plain_entry es"

definition plain_social :: "social_link \<Rightarrow> bool" where
  "plain_social l \<longleftrightarrow> plain (icon l) \<and> plain (social_label l) \<and> plain (href l)"

definition plain_starlight :: "starlight_config \<Rightarrow> bool" where
  "plain_starlight c \<longleftrightarrow>
     plain (title c) \<and> plain (description c) \<and> list_all plain_social (social c) \<and>
     list_all plain_entry (sidebar c) \<and> list_all plain (customCss c)"

definition plain_config :: "astro_config \<Rightarrow> bool" where
  "plain_config c \<longleftrightarrow>
     plain (site c) \<and> plain (base c) \<and>
     list_all (\<lambda>i. plain_starlight (options i)) (integrations c)"

lemmas plain_defs = plain_config_def plain_starlight_def plain_social_def

section \<open>Writing and reading a configuration\<close>

lemma those_map_Some:
  assumes "\<And>x. x \<in> set xs \<Longrightarrow> d (e x) = Some x"
  shows "those (map (d \<circ> e) xs) = Some xs"
  using assms by (induction xs) simp_all

lemma decode_list_map:
  "(\<And>x. x \<in> set xs \<Longrightarrow> d (e x) = Some x) \<Longrightarrow> decode_list d (JArr (map e xs)) = Some xs"
  by (simp add: decode_list_def those_map_Some)

lemma decode_obj_of_entry [simp]: "decode_entry (obj_of_entry e) = Some e"
  by (induction e) (simp_all add: field_def has_keys_def those_map_Some)

lemma decode_encode_social [simp]: "decode_social (encode_social l) = Some l"
  by (simp add: decode_social_def encode_social_def field_def has_keys_def)

lemma decode_encode_starlight [simp]: "decode_starlight (encode_starlight c) = Some c"
  by (simp add: decode_starlight_def encode_starlight_def field_def has_keys_def
      decode_list_map)

lemma decode_encode_integration [simp]: "decode_integration (encode_integration i) = Some i"
  by (cases i) (simp add: decode_integration_def)

lemma decode_encode_config: "decode_config (encode_config c) = Some c"
  by (simp add: decode_config_def encode_config_def field_def has_keys_def decode_list_map)

lemma read_config_module: "read_module (config_module c) = Some c"
  by (simp add: read_module_def config_module_def config_imports_def decode_encode_config)

lemma read_config_tokens: "read_tokens (config_tokens c) = Some c"
  by (simp add: read_tokens_def config_tokens_def parse_module_tokens read_config_module)

lemma wf_ident_keys:
  "wf_ident ''label''" "wf_ident ''slug''" "wf_ident ''items''" "wf_ident ''icon''"
  "wf_ident ''href''" "wf_ident ''title''" "wf_ident ''description''" "wf_ident ''social''"
  "wf_ident ''sidebar''" "wf_ident ''customCss''" "wf_ident ''site''" "wf_ident ''base''"
  "wf_ident ''integrations''" "wf_ident ''starlight''" "wf_ident ''defineConfig''"
  by (simp_all add: wf_ident_def lex_class_defs char_class_defs)

lemma wf_js_entry: "plain_entry e \<Longrightarrow> wf_js (obj_of_entry e)"
  by (induction e) (simp_all add: wf_ident_keys list_all_iff)

lemma wf_js_social: "plain_social l \<Longrightarrow> wf_js (encode_social l)"
  by (simp add: plain_social_def encode_social_def wf_ident_keys)

lemma wf_js_starlight: "plain_starlight c \<Longrightarrow> wf_js (encode_starlight c)"
  by (simp add: plain_starlight_def encode_starlight_def wf_ident_keys list_all_iff
      wf_js_entry wf_js_social)

lemma wf_js_integration: "plain_starlight (options i) \<Longrightarrow> wf_js (encode_integration i)"
  by (cases i) (simp add: wf_ident_keys wf_js_starlight)

lemma wf_js_config: "plain_config c \<Longrightarrow> wf_js (encode_config c)"
  by (simp add: plain_config_def encode_config_def wf_ident_keys list_all_iff
      wf_js_integration)

lemma wf_config_tokens: "plain_config c \<Longrightarrow> list_all wf_token (config_tokens c)"
  using wf_tokens_of(1) [OF wf_js_config, of c]
  by (simp add: config_tokens_def config_module_def module_tokens_def config_imports_def
      lex_class_defs char_class_defs)

section \<open>What is read can be written\<close>

lemma field_all:
  "field ms k = Some v \<Longrightarrow> list_all (\<lambda>m. wf_ident (fst m) \<and> wf_js (snd m)) ms \<Longrightarrow> wf_js v"
  by (drule field_member) (auto simp: list_all_iff)

lemma field_str: "field ms k = Some (JStr s) \<Longrightarrow> wf_js (JObj ms) \<Longrightarrow> plain s"
  using field_all [of ms k "JStr s"] by simp

lemma field_arr: "field ms k = Some (JArr es) \<Longrightarrow> wf_js (JObj ms) \<Longrightarrow> list_all wf_js es"
  using field_all [of ms k "JArr es"] by simp

lemma those_map_all:
  assumes "those (map d es) = Some xs"
    and "\<And>e x. e \<in> set es \<Longrightarrow> d e = Some x \<Longrightarrow> P x"
  shows "list_all P xs"
  using assms
proof (induction es arbitrary: xs)
  case Nil
  then show ?case by simp
next
  case (Cons e es)
  from Cons.prems(1) obtain x xs' where x: "d e = Some x" "those (map d es) = Some xs'" "xs = x # xs'"
    by (auto split: option.splits)
  have "list_all P xs'"
    by (rule Cons.IH [OF x(2)]) (rule Cons.prems(2), simp_all)
  moreover have "P x" by (rule Cons.prems(2) [OF _ x(1)]) simp
  ultimately show ?case using x(3) by simp
qed

lemma decode_list_all:
  assumes "decode_list d v = Some xs" and "wf_js v"
    and "\<And>e x. wf_js e \<Longrightarrow> d e = Some x \<Longrightarrow> P x"
  shows "list_all P xs"
proof -
  from assms(1) obtain es where v: "v = JArr es" and xs: "those (map d es) = Some xs"
    by (auto simp: decode_list_def split: js.splits)
  from xs show ?thesis
    by (rule those_map_all) (use assms(2,3) v in \<open>auto simp: list_all_iff\<close>)
qed

lemma decode_entry_plain: "decode_entry v = Some e \<Longrightarrow> wf_js v \<Longrightarrow> plain_entry e"
proof (induction v arbitrary: e rule: measure_induct_rule [where f = size])
  case (less v)
  from less.prems(1) obtain ms where v: "v = JObj ms" by (cases v) simp_all
  from less.prems(1) v consider
      l s where "field ms ''label'' = Some (JStr l)" "field ms ''slug'' = Some (JStr s)" "e = Link l s"
    | l es es' where "field ms ''label'' = Some (JStr l)" "field ms ''items'' = Some (JArr es)"
        "those (map decode_entry es) = Some es'" "e = Group l es'"
    by (auto split: option.splits js.splits if_splits)
  then show ?case
  proof cases
    case 1
    with less.prems(2) v show ?thesis by (auto dest: field_str)
  next
    case 2
    have "list_all plain_entry es'"
      using 2(3)
    proof (rule those_map_all)
      fix x y assume x: "x \<in> set es" "decode_entry x = Some y"
      from size_field_elem [OF 2(2) x(1)] v have "size x < size v" by simp
      moreover from field_arr [OF 2(2)] less.prems(2) v x(1) have "wf_js x"
        by (simp add: list_all_iff)
      ultimately show "plain_entry y" using x(2) by (intro less.IH)
    qed
    with 2 less.prems(2) v show ?thesis by (auto dest: field_str)
  qed
qed

lemma decode_social_plain: "decode_social v = Some l \<Longrightarrow> wf_js v \<Longrightarrow> plain_social l"
  by (auto simp: decode_social_def plain_social_def split: js.splits option.splits if_splits
      dest: field_str)

lemma str_of_plain: "str_of v = Some s \<Longrightarrow> wf_js v \<Longrightarrow> plain s"
  by (cases v) simp_all

lemma decode_starlight_plain:
  assumes "decode_starlight v = Some c" and "wf_js v"
  shows "plain_starlight c"
proof -
  from assms(1) obtain ms where v: "v = JObj ms"
    by (auto simp: decode_starlight_def split: js.splits)
  from assms(1) v obtain t d so sb css vso vsb vcss
    where f: "field ms ''title'' = Some (JStr t)" "field ms ''description'' = Some (JStr d)"
      "field ms ''social'' = Some vso" "decode_list decode_social vso = Some so"
      "field ms ''sidebar'' = Some vsb" "decode_list decode_entry vsb = Some sb"
      "field ms ''customCss'' = Some vcss" "decode_list str_of vcss = Some css"
      and c: "c = \<lparr>title = t, description = d, social = so, sidebar = sb, customCss = css\<rparr>"
    by (auto simp: decode_starlight_def Option.bind_eq_Some_conv
        split: option.splits js.splits if_splits)
  from assms(2) v have ms: "list_all (\<lambda>m. wf_ident (fst m) \<and> wf_js (snd m)) ms" by simp
  have "list_all plain_social so"
    using f(4) field_all [OF f(3) ms] by (rule decode_list_all) (rule decode_social_plain)
  moreover have "list_all plain_entry sb"
    using f(6) field_all [OF f(5) ms] by (rule decode_list_all) (rule decode_entry_plain)
  moreover have "list_all plain css"
    using f(8) field_all [OF f(7) ms] by (rule decode_list_all) (rule str_of_plain)
  ultimately show ?thesis
    using f(1,2) assms(2) v c by (auto simp: plain_starlight_def dest: field_str)
qed

lemma decode_integration_plain:
  "decode_integration v = Some i \<Longrightarrow> wf_js v \<Longrightarrow> plain_starlight (options i)"
  by (auto simp: decode_integration_def split: js.splits list.splits if_splits
      dest: decode_starlight_plain)

lemma decode_config_plain:
  assumes "decode_config v = Some c" and "wf_js v"
  shows "plain_config c"
proof -
  from assms(1) obtain ms s b vis is'
    where v: "v = JCall ''defineConfig'' [JObj ms]"
      and f: "field ms ''site'' = Some (JStr s)" "field ms ''base'' = Some (JStr b)"
        "field ms ''integrations'' = Some vis" "decode_list decode_integration vis = Some is'"
      and c: "c = \<lparr>site = s, base = b, integrations = is'\<rparr>"
    by (auto simp: decode_config_def Option.bind_eq_Some_conv
        split: option.splits js.splits list.splits if_splits)
  from assms(2) v have ms: "wf_js (JObj ms)" by simp
  then have "list_all (\<lambda>m. wf_ident (fst m) \<and> wf_js (snd m)) ms" by simp
  from f(4) field_all [OF f(3) this]
  have "list_all (\<lambda>i. plain_starlight (options i)) is'"
    by (rule decode_list_all) (rule decode_integration_plain)
  with f(1,2) ms c show ?thesis by (auto simp: plain_config_def dest: field_str)
qed

lemma read_module_plain:
  "read_module ss = Some c \<Longrightarrow> list_all wf_statement ss \<Longrightarrow> plain_config c"
  by (auto simp: read_module_def split: list.splits statement.splits if_splits
      dest: decode_config_plain)

lemma read_config_plain: "read_config s = Some c \<Longrightarrow> plain_config c"
  by (auto simp: read_config_def read_tokens_def parse_module_def Option.bind_eq_Some_conv
      dest!: lex_wf parse_statements_wf read_module_plain)

section \<open>Reading line by line\<close>

lemma read_config_unlines: "read_config (unlines ls) = read_lines ls"
  by (simp add: read_config_def read_lines_def lex_unlines)

section \<open>Writing and reading text\<close>

text \<open>
  The reader is checked against the writer. Writing a configuration as text
  and reading the text gives the configuration back, for every configuration
  whose strings can be written between double quotes. Every configuration the
  reader returns is one of those, so whatever is read can be written and read
  again.
\<close>

lemma read_print_config: "plain_config c \<Longrightarrow> read_config (print_config c) = Some c"
  by (simp add: read_config_def print_config_def lex_render read_config_tokens
      wf_config_tokens)

lemma read_print_read:
  "read_config s = Some c \<Longrightarrow> read_config (print_config c) = Some c"
  by (rule read_print_config) (rule read_config_plain)

section \<open>Names of the written module\<close>

lemma calls_obj_of_entry [simp]: "calls (obj_of_entry e) = []"
  by (induction e) simp_all

lemma calls_encode_social [simp]: "calls (encode_social l) = []"
  by (simp add: encode_social_def)

lemma calls_encode_starlight [simp]: "calls (encode_starlight c) = []"
  by (simp add: encode_starlight_def)

lemma calls_encode_integration [simp]: "calls (encode_integration i) = [''starlight'']"
  by (cases i) simp

lemma uses_config_module:
  "uses (config_module c) = ''defineConfig'' # map (\<lambda>i. ''starlight'') (integrations c)"
proof -
  have "concat (map calls (map encode_integration is)) = map (\<lambda>i. ''starlight'') is" for "is"
    by (induction "is") simp_all
  then show ?thesis
    by (simp add: uses_def config_module_def config_imports_def encode_config_def)
qed

section \<open>The file\<close>

text \<open>
  C1. The text of \<^verbatim>\<open>astro.config.mjs\<close>, read as JavaScript (cut into tokens,
  parsed as a module of two imports and a default export, the exported value
  decoded), is the configuration \<open>tedlt_config\<close>: the records of \<open>Site_Config\<close>
  say what the file says, string for string and in the file's order.
\<close>

theorem config_source_denotes: "read_config (unlines config_source) = Some tedlt_config"
  unfolding read_config_unlines by code_simp

text \<open>
  C5. The module the file's text parses to is the module \<open>config_module\<close> writes
  for \<open>tedlt_config\<close>: the import of \<^verbatim>\<open>defineConfig\<close> from \<^verbatim>\<open>astro/config\<close>, the
  default import of \<^verbatim>\<open>starlight\<close> from \<^verbatim>\<open>@astrojs/starlight\<close>, and the default
  export with every key once and in the order of the records' fields. Nothing
  of the file but layout, comments and trailing commas is lost in the model.
\<close>

theorem config_source_module:
  "Option.bind (lex (unlines config_source)) parse_module = Some (config_module tedlt_config)"
  unfolding lex_unlines by code_simp

text \<open>
  C8. The file binds the names it uses: it imports no name twice, the two
  functions its exported value calls (\<^verbatim>\<open>defineConfig\<close>, line 6, and \<^verbatim>\<open>starlight\<close>,
  line 10) are the two names its imports bind (lines 2 and 3), and it imports
  nothing it does not call. A misspelt call or a dropped import line, which
  would stop the site from building, falsifies this. The reader compares the
  imports of the text with \<open>config_imports\<close>, whatever they are: were line 3 to
  bind another name, in the file and in \<open>config_imports\<close> alike, the text would
  still denote the configuration and parse to its module, and only this
  property would fail.
\<close>

theorem config_source_scoped:
  "map_option well_scoped (Option.bind (lex (unlines config_source)) parse_module) = Some True"
  unfolding lex_unlines by code_simp

end
