(* ===== verification/Spec2Isabelle.thy ===== *)
theory Spec2Isabelle
  imports Site_Config Slugs Sidebar Site_Urls Config_Reader
begin

text \<open>
  \<^bold>\<open>The repository.\<close> The sources of this repository are one file,
  \<^verbatim>\<open>src/docs/astro.config.mjs\<close> (63 lines): the configuration of the
  documentation site of \<^emph>\<open>tedlt\<close>, a command-line tool that creates Jira tickets
  from a title. The file is one expression, the object handed to
  \<^verbatim>\<open>defineConfig\<close>: where the site is served (\<^verbatim>\<open>site\<close>, \<^verbatim>\<open>base\<close>) and one
  integration, \<^verbatim>\<open>starlight\<close>, with the site's title, description, social link,
  sidebar (four groups, fourteen pages) and style sheet. It declares no
  function, keeps no state and has no control flow, no arithmetic and no
  error path; the only calls are to the two library functions. The
  specification describes something else: a configuration resolution engine
  (profile model, profile resolver, template engine, schema validator, issue
  request builder), and says itself that the source contains no
  implementation of it and that the documentation site is out of its scope.
  So the program that can be verified against its source is the
  configuration, and what can go wrong in it is what goes wrong in such files:
  a misspelt key or call, a slug listed twice, a malformed slug, a page filed
  under the wrong group or outside every directory, two pages under one label,
  a \<^verbatim>\<open>base\<close> that does not match the repository the site is deployed from.

  \<^bold>\<open>The theories.\<close>
  \<^item> \<open>Tedlt_Prelude\<close>: the lemma collections (\<open>cfg_defs\<close>, \<open>wf_defs\<close>)
    and the generic executable functions: \<open>split_on\<close> and \<open>join_with\<close> with
    their round trips, the character classes and \<open>to_lower\<close>.
  \<^item> \<open>Site_Config\<close>: the source file as data, and nothing else. The records
    \<open>astro_config\<close> (lines 6 to 63), \<open>starlight_config\<close> (lines 10 to 61) and
    \<open>social_link\<close> (lines 14 to 20) have one field per key of the object
    literals; the datatype \<open>sidebar_entry\<close> has the two shapes of entry the file
    uses, \<open>Link\<close> (\<^verbatim>\<open>{ label, slug }\<close>) and \<open>Group\<close> (\<^verbatim>\<open>{ label, items }\<close>); the
    values \<open>tedlt_config\<close>, \<open>starlight_options\<close>, \<open>github_link\<close>, \<open>docs_sidebar\<close>
    and the groups \<open>getting_started\<close>, \<open>usage\<close>, \<open>configuration\<close>, \<open>reference\<close>
    carry the file's strings character for character.
  \<^item> \<open>Config_Source\<close>: the text of the file, \<open>config_source\<close>, its sixty-three
    lines as strings; joined by line breaks they are the file byte for byte.
  \<^item> \<open>Js_Lexer\<close> and \<open>Js_Parser\<close>: the part of JavaScript the file is written
    in. The lexer is a state machine over characters (\<open>lex_step\<close>, \<open>lex_run\<close>,
    \<open>lex\<close>); the parser is a recursive descent over tokens (\<open>parse_value\<close>,
    \<open>parse_statement\<close>, \<open>parse_module\<close>) that decides the grammar \<open>value_of\<close>.
    Both come with printers (\<open>render\<close>, \<open>tokens_of\<close>, \<open>module_tokens\<close>) and the
    round trips through them.
  \<^item> \<open>Js_Scope\<close>: the names a module binds (its imports) and uses (the
    functions its export calls), and the predicate \<open>well_scoped\<close>.
  \<^item> \<open>Config_Reader\<close>: the decoder from parsed values to the records
    (\<open>decode_config\<close>), the imports the file must make (\<open>config_imports\<close>, lines
    2 and 3), the reader \<open>read_config\<close> from text to configuration, the
    writers in the other direction (\<open>encode_config\<close>, \<open>print_config\<close>) with
    the round trips, the predicate \<open>plain_config\<close> (no string needs an escape)
    that every configuration the reader returns satisfies, and the evaluation
    of the reader on \<open>config_source\<close>: the text of the file denotes
    \<open>tedlt_config\<close>. This is what ties the values of \<open>Site_Config\<close> to the
    source: they are not only transcribed from the file, they are what reading
    the file yields. The thirteen definitions of \<open>Site_Config\<close>,
    \<open>config_source\<close> and \<open>config_imports\<close> are the ones that translate lines of
    \<^verbatim>\<open>src/\<close>.
  \<^item> \<open>Slugs\<close>: slugs as paths of kebab-case segments (\<open>segments\<close>, \<open>wf_slug\<close>,
    \<open>directory\<close>, \<open>slugify\<close>).
  \<^item> \<open>Sidebar\<close>: the pages of a sidebar in reading order (\<open>sidebar_links\<close>,
    \<open>slugs\<close>, \<open>page_labels\<close>), well-formedness (\<open>wf_sidebar\<close>), filing of pages
    under groups (\<open>housed\<close>, \<open>filed\<close>) and the page a label names
    (\<open>slug_of_label\<close>).
  \<^item> \<open>Site_Urls\<close>: the syntax of \<^verbatim>\<open>site\<close>, \<^verbatim>\<open>base\<close>, \<^verbatim>\<open>href\<close> and \<^verbatim>\<open>customCss\<close>, and
    the agreement of \<^verbatim>\<open>site\<close> and \<^verbatim>\<open>base\<close> with the repository
    (\<open>pages_deployment\<close>).
  \<^item> This theory: well-formedness of a whole configuration (\<open>wf_config\<close>).

  \<^bold>\<open>Source and judgement.\<close> Two kinds of definition translate no line of the
  source, and the manifest maps neither. The lexer, the parser and the decoder
  model the language the file is written in, restricted to what the file uses;
  a text outside that part is refused, never read differently from
  JavaScript. The predicates of \<open>Slugs\<close>, \<open>Sidebar\<close>, \<open>Site_Urls\<close>, \<open>Js_Scope\<close>
  and of this theory are the requirements the file is judged by: what an
  editor of the file has to keep true for the site to build and to be found.
  Every property is such a predicate, or the reader, applied to the configured
  values or to the text of the file. How the site generator routes and
  paginates the pages is not modelled: it is library code, and nothing is
  proved about it.

  \<^bold>\<open>What the lemmas show.\<close> For the language: the lexer's tokens are well
  formed (\<open>lex_wf\<close>, an invariant of the state machine), lexing line by line
  is lexing the whole text (\<open>lex_unlines\<close>), white space and comments give no
  token, printed tokens lex back (\<open>lex_render\<close>); the parser is sound and
  complete for the grammar and the grammar is functional
  (\<open>parse_sound\<close>, \<open>parse_complete\<close>, \<open>value_of_functional\<close>), printed values and
  modules parse back (\<open>parse_tokens_of\<close>, \<open>parse_module_tokens\<close>); the decoder
  inverts the encoder (\<open>decode_encode_config\<close>), and what the reader returns
  can be written and read again (\<open>read_print_read\<close>). These lemmas are the
  evidence that the reader, on which the properties about the text rest, reads
  what is written. For the configuration, each theory proves the general laws
  of its functions (round trips of \<open>segments\<close>; uniqueness of lookup under
  distinctness; what \<open>filed\<close> says of every page of a tree), and then the
  properties, each decided by rewriting from the definitions of
  \<open>Site_Config\<close> or by evaluating the reader on \<open>config_source\<close>: the text
  denotes the configuration and parses to the module written for it; the file
  binds the names it uses; the sidebar is well formed; pages are filed under
  their groups, the landing page alone outside; labels name one page; the site
  is the GitHub Pages site of its repository; the configuration as a whole is
  well formed.

  \<^bold>\<open>Fuel.\<close> One recursion is not structural in the data: the parser descends
  into nested values with fuel; \<open>parse_module\<close> and \<open>parse_export\<close> give it the
  number of tokens. \<open>parse_complete\<close> proves that every value of the grammar is
  parsed with as much fuel as it has tokens, so \<open>parse_value_iff\<close> holds
  without a bound: the fuel never turns a text of the grammar into an error.
  \<open>parse_statements_fuel\<close> and \<open>parse_module_fuel\<close> are the same for sequences of
  statements.

  \<^bold>\<open>Not modelled.\<close> JavaScript beyond what the file uses (numbers, escapes in
  strings, single-quoted and template strings, operators, block comments,
  statements other than imports and a default export, semicolon insertion):
  the lexer and the parser answer \<open>None\<close> on them;
  \<^verbatim>\<open>defineConfig\<close> and \<^verbatim>\<open>starlight\<close> themselves and everything the site
  generator does with the configuration (library code); the
  pages the slugs name and the style sheet the path names (not under
  \<^verbatim>\<open>src/\<close>, so that links cannot be checked against files); the five
  components of the specification's engine and its external collaborators
  (command line, network client, configuration file loader), of which no code
  is under \<^verbatim>\<open>src/\<close>.
\<close>

section \<open>Well-formed configurations\<close>

definition wf_config :: "astro_config \<Rightarrow> bool" where
  "wf_config cfg \<longleftrightarrow>
     wf_site (site cfg) \<and> wf_base (base cfg) \<and>
     (case starlight_of cfg of
        None \<Rightarrow> False
      | Some opts \<Rightarrow>
          title opts \<noteq> [] \<and> description opts \<noteq> [] \<and>
          list_all wf_social (social opts) \<and>
          wf_sidebar (sidebar opts) \<and>
          list_all wf_css_path (customCss opts))"

section \<open>What well-formedness guarantees\<close>

lemma wf_config_starlight:
  assumes "wf_config cfg"
  obtains opts where "starlight_of cfg = Some opts" and "wf_sidebar (sidebar opts)"
  using assms by (auto simp: wf_config_def split: option.splits)

lemma wf_config_slug:
  assumes "wf_config cfg" and "starlight_of cfg = Some opts" and "s \<in> set (slugs (sidebar opts))"
  shows "wf_slug s"
  using assms by (auto simp: wf_config_def intro: wf_sidebar_slug)

section \<open>The configuration\<close>

text \<open>
  C4. The exported configuration is well formed as a whole: \<open>site\<close> is an
  \<open>https\<close> address of a host and nothing more, \<open>base\<close> is a slash followed by a
  well-formed path, there is exactly one integration, its title and
  description are not empty, its social links have an icon, a label and an
  \<open>https\<close> address, its sidebar is well formed and its style sheets are
  relative paths to \<open>.css\<close> files.
\<close>

theorem tedlt_config_well_formed: "wf_config tedlt_config"
  by (simp add: wf_config_def config_unfold wf_sidebar_def sidebar_eval slug_eval wf_defs
      host_of_def suffix_def)

end
